theory Spec2Isabelle
  imports Complex_Main "HOL-Library.Multiset"
begin

section \<open>Course recommendation core of \<^verbatim>\<open>app.py\<close>\<close>

text \<open>
  A shallow embedding of the scoring functions of \<^verbatim>\<open>src/app.py\<close>:
  \<^verbatim>\<open>clean_text\<close>, \<^verbatim>\<open>handle_cold_start\<close>, \<^verbatim>\<open>recommend_courses\<close>,
  \<^verbatim>\<open>final_recommend\<close>, \<^verbatim>\<open>load_resources\<close> and the gate of \<^verbatim>\<open>main\<close>.

  Conventions.
  \<^item> A Python \<^verbatim>\<open>str\<close> is a list of Unicode code points (\<open>nat list\<close>), since the
    source filters on the code point range U+4E00 .. U+9FA5.
  \<^item> A Python exception is a value of \<open>exn\<close>; a call that may raise returns
    \<open>exn + 'a\<close> with \<open>Inl\<close> the raised exception.
  \<^item> A \<^verbatim>\<open>float\<close> is an exact \<open>real\<close>; a missing value (NaN / None) is \<open>None\<close>.
    Rounding is not modelled.
  \<^item> Files read by the program are parameters holding the outcome of the read.
  \<^item> The library calls (\<^verbatim>\<open>jieba.lcut\<close>, \<^verbatim>\<open>TfidfVectorizer.transform\<close>,
    \<^verbatim>\<open>cosine_similarity\<close>, the pandas frame operations and the sort) are not
    part of the repository. The segmenter and the sort's permutation are parameters;
    the others are modelled after the documented behaviour of the library, and each
    such definition says so.
\<close>

subsection \<open>Strings and exceptions\<close>

type_synonym pystr = "nat list"

datatype exn = KeyError | ValueError | TypeError | AttributeError | OSError

definition str :: "string \<Rightarrow> pystr" where
  "str s = map of_char s"

text \<open>The characters for which Python's \<^verbatim>\<open>str.isspace\<close> holds, which are also the
  characters the pattern \<^verbatim>\<open>\s\<close> matches on a \<^verbatim>\<open>str\<close>.\<close>

definition is_space :: "nat \<Rightarrow> bool" where
  "is_space c \<longleftrightarrow>
     (9 \<le> c \<and> c \<le> 13) \<or> (28 \<le> c \<and> c \<le> 32) \<or> c = 133 \<or> c = 160 \<or> c = 5760 \<or>
     (8192 \<le> c \<and> c \<le> 8202) \<or> c = 8232 \<or> c = 8233 \<or> c = 8239 \<or> c = 8287 \<or>
     c = 12288"

text \<open>The characters kept by \<^verbatim>\<open>re.sub(r'[^\u4e00-\u9fa5a-zA-Z\s]', '', text)\<close>.\<close>

definition is_allowed :: "nat \<Rightarrow> bool" where
  "is_allowed c \<longleftrightarrow>
     (19968 \<le> c \<and> c \<le> 40869) \<or> (97 \<le> c \<and> c \<le> 122) \<or> (65 \<le> c \<and> c \<le> 90) \<or>
     is_space c"

definition re_sub_disallowed :: "pystr \<Rightarrow> pystr" where
  "re_sub_disallowed text = filter is_allowed text"

text \<open>\<^verbatim>\<open>str.lower\<close>. The source applies it to text that has passed the filter above,
  where the only cased characters are \<^verbatim>\<open>A-Z\<close>; on those texts this is Python's
  function.\<close>

definition lower_char :: "nat \<Rightarrow> nat" where
  "lower_char c = (if 65 \<le> c \<and> c \<le> 90 then c + 32 else c)"

definition lower :: "pystr \<Rightarrow> pystr" where
  "lower text = map lower_char text"

text \<open>\<^verbatim>\<open>str.strip()\<close>: whitespace removed at both ends.\<close>

definition strip :: "pystr \<Rightarrow> pystr" where
  "strip s = rev (dropWhile is_space (rev (dropWhile is_space s)))"

text \<open>\<^verbatim>\<open>' '.join(words)\<close>.\<close>

fun join_space :: "pystr list \<Rightarrow> pystr" where
  "join_space [] = []"
| "join_space [w] = w"
| "join_space (w # v # ws) = w @ [32] @ join_space (v # ws)"

subsection \<open>\<^verbatim>\<open>clean_text\<close>\<close>

text \<open>
  \<^verbatim>\<open>
  def clean_text(text):
      with open(r'd:/.../stopwords.txt', 'r', encoding='gbk') as f:
          stopwords = [line.strip() for line in f.readlines()]
      text = re.sub(r'[^\u4e00-\u9fa5a-zA-Z\s]', '', str(text))
      text = text.lower()
      words = jieba.lcut(text)
      filtered_words = [word for word in words if word not in stopwords]
      return ' '.join(filtered_words)
  \<close>
  \<open>stopwords_file\<close> is the outcome of opening and reading the stop word file: the
  exception raised, or its lines. \<open>lcut\<close> is the segmenter \<^verbatim>\<open>jieba.lcut\<close>.
  The argument is a \<^verbatim>\<open>str\<close>, so that \<^verbatim>\<open>str(text)\<close> is \<^verbatim>\<open>text\<close>.
\<close>

text \<open>The text handed to the segmenter: filtered, then lowercased.\<close>

definition preprocess :: "pystr \<Rightarrow> pystr" where
  "preprocess text = lower (re_sub_disallowed text)"

definition clean_text ::
  "(pystr \<Rightarrow> pystr list) \<Rightarrow> exn + pystr list \<Rightarrow> pystr \<Rightarrow> exn + pystr" where
  "clean_text lcut stopwords_file text =
     (case stopwords_file of
        Inl e \<Rightarrow> Inl e
      | Inr lines \<Rightarrow>
          (let stopwords = map strip lines;
               text1 = re_sub_disallowed text;
               text2 = lower text1;
               words = lcut text2;
               filtered_words = filter (\<lambda>word. word \<notin> set stopwords) words
           in Inr (join_space filtered_words)))"

text \<open>\<^verbatim>\<open>clean_text\<close> on a cell of a frame: \<^verbatim>\<open>str(text)\<close> of a string is the
  string, and of a missing value (a float NaN) the text \<^verbatim>\<open>nan\<close>.\<close>

definition py_str :: "pystr option \<Rightarrow> pystr" where
  "py_str cell = (case cell of None \<Rightarrow> str ''nan'' | Some s \<Rightarrow> s)"

definition clean_text_cell ::
  "(pystr \<Rightarrow> pystr list) \<Rightarrow> exn + pystr list \<Rightarrow> pystr option \<Rightarrow> exn + pystr" where
  "clean_text_cell lcut stopwords_file cell = clean_text lcut stopwords_file (py_str cell)"

text \<open>
  \<^verbatim>\<open>jieba.lcut\<close> on text made of Latin letters and whitespace: every maximal run of
  letters is one token and every whitespace character is a token of its own
  (\<^verbatim>\<open>jieba.lcut("hello world") == ['hello', ' ', 'world']\<close>). On Chinese text jieba
  consults its dictionary, and it keeps a carriage return followed by a line feed
  together; this function models neither and is used for concrete evaluations on
  Latin words separated by spaces only.
\<close>

fun latin_lcut_aux :: "pystr \<Rightarrow> pystr \<Rightarrow> pystr list" where
  "latin_lcut_aux acc [] = (if acc = [] then [] else [rev acc])"
| "latin_lcut_aux acc (c # cs) =
     (if is_space c
      then (if acc = [] then [] else [rev acc]) @ [c] # latin_lcut_aux [] cs
      else latin_lcut_aux (c # acc) cs)"

definition latin_lcut :: "pystr \<Rightarrow> pystr list" where
  "latin_lcut text = latin_lcut_aux [] text"

subsection \<open>Vectors, the fitted vectorizer and cosine similarity\<close>

type_synonym vector = "real list"
type_synonym matrix = "real list list"

definition dot :: "vector \<Rightarrow> vector \<Rightarrow> real" where
  "dot x y = sum_list (map2 (*) x y)"

definition l2_norm :: "vector \<Rightarrow> real" where
  "l2_norm x = sqrt (sum_list (map (\<lambda>a. a * a) x))"

text \<open>Modelled after \<^verbatim>\<open>sklearn.preprocessing.normalize(X, norm='l2')\<close>: every row is
  divided by its norm, a norm of zero being replaced by one.\<close>

definition normalize_l2 :: "vector \<Rightarrow> vector" where
  "normalize_l2 x =
     (let n = l2_norm x; n' = (if n = 0 then 1 else n) in map (\<lambda>a. a / n') x)"

definition n_features :: "matrix \<Rightarrow> nat" where
  "n_features X = length (hd X)"

text \<open>Modelled after \<^verbatim>\<open>sklearn.metrics.pairwise.cosine_similarity(X, Y)\<close>: both
  arguments are validated (at least one row and one column each, the same number of
  columns, otherwise \<^verbatim>\<open>ValueError\<close>), their rows are normalised as above, and the
  result holds the dot products of the normalised rows.\<close>

definition cosine_row :: "vector \<Rightarrow> vector \<Rightarrow> real" where
  "cosine_row x y = dot (normalize_l2 x) (normalize_l2 y)"

definition cosine_similarity :: "matrix \<Rightarrow> matrix \<Rightarrow> exn + matrix" where
  "cosine_similarity X Y =
     (if X = [] \<or> n_features X = 0 then Inl ValueError
      else if Y = [] \<or> n_features Y = 0 then Inl ValueError
      else if n_features X \<noteq> n_features Y then Inl ValueError
      else Inr (map (\<lambda>x. map (\<lambda>y. cosine_row x y) Y) X))"

text \<open>\<^verbatim>\<open>ndarray.flatten()\<close>, row by row.\<close>

definition flatten :: "matrix \<Rightarrow> real list" where
  "flatten S = concat S"

text \<open>
  The object unpickled from \<^verbatim>\<open>tfidf_model.pkl\<close> is a fitted
  \<^verbatim>\<open>TfidfVectorizer\<close>. Its fitted state is data: the analyzer (text to terms) and the
  vocabulary in feature order, every term with its inverse document frequency.
\<close>

record tfidf_vectorizer =
  analyzer :: "pystr \<Rightarrow> pystr list"
  vocabulary :: "(pystr \<times> real) list"

text \<open>Modelled after \<^verbatim>\<open>TfidfVectorizer.transform(raw_documents)\<close> with the default
  settings (raw term counts, multiplied by the idf, rows L2-normalised). A document
  that is not a string (a missing value) makes the analyzer raise
  \<^verbatim>\<open>AttributeError\<close>; an input without documents or a vectorizer without features
  is rejected with \<^verbatim>\<open>ValueError\<close>.\<close>

definition tfidf_row :: "tfidf_vectorizer \<Rightarrow> pystr \<Rightarrow> vector" where
  "tfidf_row tfidf doc =
     (let terms = analyzer tfidf doc
      in normalize_l2 (map (\<lambda>(t, w). real (count_list terms t) * w) (vocabulary tfidf)))"

definition transform :: "tfidf_vectorizer \<Rightarrow> pystr option list \<Rightarrow> exn + matrix" where
  "transform tfidf docs =
     (if None \<in> set docs then Inl AttributeError
      else if docs = [] \<or> vocabulary tfidf = [] then Inl ValueError
      else Inr (map (\<lambda>d. tfidf_row tfidf (the d)) docs))"

subsection \<open>Data frames\<close>

text \<open>
  A \<^verbatim>\<open>pandas.DataFrame\<close> is the list of its columns in column order, each a name
  and the values of the column; a column holds strings or floats, with \<open>None\<close> for
  a missing value. The row labels are positional and are not modelled.
\<close>

datatype column = StrCol "pystr option list" | NumCol "real option list"

type_synonym dataframe = "(pystr \<times> column) list"

fun col_len :: "column \<Rightarrow> nat" where
  "col_len (StrCol xs) = length xs"
| "col_len (NumCol xs) = length xs"

definition nrows :: "dataframe \<Rightarrow> nat" where
  "nrows df = (case df of [] \<Rightarrow> 0 | (_, c) # _ \<Rightarrow> col_len c)"

definition columns :: "dataframe \<Rightarrow> pystr list" where
  "columns df = map fst df"

text \<open>All columns of a frame have the same length and distinct names.\<close>

definition df_wf :: "dataframe \<Rightarrow> bool" where
  "df_wf df \<longleftrightarrow> distinct (map fst df) \<and> (\<forall>c \<in> set (map snd df). col_len c = nrows df)"

text \<open>\<^verbatim>\<open>df[name]\<close>.\<close>

definition df_get :: "dataframe \<Rightarrow> pystr \<Rightarrow> exn + column" where
  "df_get df name = (case map_of df name of None \<Rightarrow> Inl KeyError | Some c \<Rightarrow> Inr c)"

text \<open>The column store behind \<^verbatim>\<open>df[name] = ...\<close>: an existing column is replaced
  where it stands, a new one is appended.\<close>

fun df_put :: "dataframe \<Rightarrow> pystr \<Rightarrow> column \<Rightarrow> dataframe" where
  "df_put [] name c = [(name, c)]"
| "df_put ((m, d) # df) name c =
     (if m = name then (name, c) # df else (m, d) # df_put df name c)"

fun blank_col :: "nat \<Rightarrow> column \<Rightarrow> column" where
  "blank_col k (StrCol xs) = StrCol (replicate k None)"
| "blank_col k (NumCol xs) = NumCol (replicate k None)"

text \<open>\<^verbatim>\<open>df[name] = values\<close> for a numpy array of floats. A frame without rows takes
  its rows from a non-empty array, the other columns being filled with missing
  values; otherwise an array of another length is a \<^verbatim>\<open>ValueError\<close>.\<close>

definition df_set_array :: "dataframe \<Rightarrow> pystr \<Rightarrow> real list \<Rightarrow> exn + dataframe" where
  "df_set_array df name vals =
     (if nrows df = 0 \<and> vals \<noteq> []
      then Inr (df_put (map (\<lambda>(m, c). (m, blank_col (length vals) c)) df) name
                  (NumCol (map Some vals)))
      else if length vals \<noteq> nrows df then Inl ValueError
      else Inr (df_put df name (NumCol (map Some vals))))"

text \<open>\<^verbatim>\<open>df[name] = v\<close> for a scalar number.\<close>

definition df_set_scalar :: "dataframe \<Rightarrow> pystr \<Rightarrow> real \<Rightarrow> dataframe" where
  "df_set_scalar df name v = df_put df name (NumCol (replicate (nrows df) (Some v)))"

text \<open>\<^verbatim>\<open>df[[n1, n2, ...]]\<close>.\<close>

fun df_select :: "dataframe \<Rightarrow> pystr list \<Rightarrow> exn + dataframe" where
  "df_select df [] = Inr []"
| "df_select df (n # ns) =
     (case df_get df n of
        Inl e \<Rightarrow> Inl e
      | Inr c \<Rightarrow> (case df_select df ns of Inl e \<Rightarrow> Inl e | Inr r \<Rightarrow> Inr ((n, c) # r)))"

fun col_take :: "nat list \<Rightarrow> column \<Rightarrow> column" where
  "col_take order (StrCol xs) = StrCol (map (\<lambda>i. xs ! i) order)"
| "col_take order (NumCol xs) = NumCol (map (\<lambda>i. xs ! i) order)"

text \<open>The rows at the positions \<open>order\<close>, in that order.\<close>

definition take_rows :: "nat list \<Rightarrow> dataframe \<Rightarrow> dataframe" where
  "take_rows order df = map (\<lambda>(n, c). (n, col_take order c)) df"

text \<open>\<^verbatim>\<open>df.head(n)\<close>, that is \<^verbatim>\<open>df.iloc[:n]\<close>: a negative \<open>n\<close> drops the last
  \<open>-n\<close> rows.\<close>

definition head_count :: "int \<Rightarrow> nat \<Rightarrow> nat" where
  "head_count n len = (if 0 \<le> n then min (nat n) len else len - nat (- n))"

definition df_head :: "int \<Rightarrow> dataframe \<Rightarrow> dataframe" where
  "df_head n df = take_rows [0..<head_count n (nrows df)] df"

text \<open>\<^verbatim>\<open>df.sort_values(by=..., ascending=False)\<close> on a float column with the values
  \<open>keys\<close>: the rows with a key in descending order, then the rows whose key is
  missing. pandas sorts with numpy's \<^verbatim>\<open>quicksort\<close>, whose order among equal keys
  is not specified; \<open>argsort\<close> stands for it and maps the present keys to the
  positions in sorted order.\<close>

definition sort_values_desc ::
  "(real list \<Rightarrow> nat list) \<Rightarrow> real option list \<Rightarrow> dataframe \<Rightarrow> dataframe" where
  "sort_values_desc argsort keys df =
     (let idx = [0..<length keys];
          present = filter (\<lambda>i. keys ! i \<noteq> None) idx;
          missing = filter (\<lambda>i. keys ! i = None) idx;
          order = map (\<lambda>j. present ! j) (argsort (map (\<lambda>i. the (keys ! i)) present))
      in take_rows (order @ missing) df)"

text \<open>What the program relies on from the sort: the result is a permutation of the
  positions that puts the keys in descending order.\<close>

definition sorts_descending :: "(real list \<Rightarrow> nat list) \<Rightarrow> bool" where
  "sorts_descending argsort \<longleftrightarrow>
     (\<forall>ks. mset (argsort ks) = mset [0..<length ks] \<and>
           sorted_wrt (\<lambda>i j. ks ! i \<ge> ks ! j) (argsort ks))"

text \<open>A sort that does keep equal keys in their input order, as pandas' index
  computation does when the underlying sort is stable: reverse, sort ascending,
  reverse.\<close>

definition stable_argsort :: "real list \<Rightarrow> nat list" where
  "stable_argsort ks = rev (sort_key (\<lambda>i. ks ! i) (rev [0..<length ks]))"

subsection \<open>Column arithmetic\<close>

text \<open>\<^verbatim>\<open>series + ' '\<close>: a suffix appended to every string of a column; missing
  values stay missing, and a float column cannot take a string.\<close>

fun str_col_add_suffix :: "column \<Rightarrow> pystr \<Rightarrow> exn + pystr option list" where
  "str_col_add_suffix (StrCol xs) s = Inr (map (map_option (\<lambda>x. x @ s)) xs)"
| "str_col_add_suffix (NumCol xs) s = Inl TypeError"

definition cat_opt :: "pystr option \<Rightarrow> pystr option \<Rightarrow> pystr option" where
  "cat_opt x y = (case (x, y) of (Some a, Some b) \<Rightarrow> Some (a @ b) | _ \<Rightarrow> None)"

text \<open>\<^verbatim>\<open>series + series\<close> with strings on the left: row by row, missing if either
  side is missing; a string meeting a number is a \<^verbatim>\<open>TypeError\<close>.\<close>

fun str_col_add :: "pystr option list \<Rightarrow> column \<Rightarrow> exn + pystr option list" where
  "str_col_add xs (StrCol ys) = Inr (map2 cat_opt xs ys)"
| "str_col_add xs (NumCol ys) =
     (if \<exists>(x, y) \<in> set (zip xs ys). x \<noteq> None \<and> y \<noteq> None then Inl TypeError
      else Inr (map (\<lambda>_. None) xs))"

text \<open>\<^verbatim>\<open>series.apply(f)\<close>: \<open>f\<close> on every value in row order; the first exception
  ends the call.\<close>

fun series_apply :: "('a \<Rightarrow> exn + 'b) \<Rightarrow> 'a list \<Rightarrow> exn + 'b list" where
  "series_apply f [] = Inr []"
| "series_apply f (x # xs) =
     (case f x of
        Inl e \<Rightarrow> Inl e
      | Inr y \<Rightarrow> (case series_apply f xs of Inl e \<Rightarrow> Inl e | Inr ys \<Rightarrow> Inr (y # ys)))"

text \<open>\<^verbatim>\<open>series.fillna(0)\<close>. A string column that still holds a string afterwards
  stays a string column.\<close>

fun fillna0 :: "column \<Rightarrow> column" where
  "fillna0 (NumCol xs) = NumCol (map (\<lambda>x. case x of None \<Rightarrow> Some 0 | Some v \<Rightarrow> Some v) xs)"
| "fillna0 (StrCol xs) =
     (if \<forall>x \<in> set xs. x = None then NumCol (map (\<lambda>_. Some 0) xs) else StrCol xs)"

text \<open>\<^verbatim>\<open>w * series\<close> for a float \<open>w\<close>: a float times a string is a
  \<^verbatim>\<open>TypeError\<close>.\<close>

fun scale_col :: "real \<Rightarrow> column \<Rightarrow> exn + real option list" where
  "scale_col w (NumCol xs) = Inr (map (map_option (\<lambda>x. w * x)) xs)"
| "scale_col w (StrCol xs) =
     (if \<forall>x \<in> set xs. x = None then Inr (map (\<lambda>_. None) xs) else Inl TypeError)"

definition add_opt :: "real option \<Rightarrow> real option \<Rightarrow> real option" where
  "add_opt x y = (case (x, y) of (Some a, Some b) \<Rightarrow> Some (a + b) | _ \<Rightarrow> None)"

text \<open>The expression
  \<^verbatim>\<open>similarity_weight * df['similarity'] + rating_weight * df['avg_rating']\<close>
  of both scoring functions.\<close>

definition composite_column :: "real \<Rightarrow> real \<Rightarrow> dataframe \<Rightarrow> exn + real option list" where
  "composite_column similarity_weight rating_weight df =
     (case df_get df (str ''similarity'') of
        Inl e \<Rightarrow> Inl e
      | Inr sim \<Rightarrow>
     (case scale_col similarity_weight sim of
        Inl e \<Rightarrow> Inl e
      | Inr a \<Rightarrow>
     (case df_get df (str ''avg_rating'') of
        Inl e \<Rightarrow> Inl e
      | Inr rating \<Rightarrow>
     (case scale_col rating_weight rating of
        Inl e \<Rightarrow> Inl e
      | Inr b \<Rightarrow> Inr (map2 add_opt a b)))))"

subsection \<open>\<^verbatim>\<open>handle_cold_start\<close>\<close>

text \<open>The two column names the function adds: the four ideographs U+66FF U+4EE3
  U+6587 U+672C (``substitute text''), written \<^verbatim>\<open>SUBST\<close> below, and the same
  with the prefix \<^verbatim>\<open>cleaned_\<close>.\<close>

definition substitute_text :: pystr where
  "substitute_text = [26367, 20195, 25991, 26412]"

definition cleaned_substitute_text :: pystr where
  "cleaned_substitute_text = str ''cleaned_'' @ substitute_text"

text \<open>
  \<^verbatim>\<open>
  def handle_cold_start(new_course_teacher_df, tfidf, clean_text, keywords_tfidf,
                        similarity_weight=0.7, rating_weight=0.3):
      new_course_teacher_df[SUBST] = new_course_teacher_df['course_name'] + ' ' \
                                     + new_course_teacher_df['teacher_name']
      new_course_teacher_df['cleaned_' + SUBST] = new_course_teacher_df[SUBST].apply(clean_text)
      new_tfidf_matrix = tfidf.transform(new_course_teacher_df['cleaned_' + SUBST])
      similarity_scores = cosine_similarity(keywords_tfidf, new_tfidf_matrix).flatten()
      cold_start_results = new_course_teacher_df[['course_name', 'teacher_name']].copy()
      cold_start_results['similarity'] = similarity_scores
      cold_start_results['avg_rating'] = 0
      cold_start_results['composite_score'] = (
          similarity_weight * cold_start_results['similarity'] +
          rating_weight * cold_start_results['avg_rating'])
      return cold_start_results
  \<close>
  The frame is passed by reference and assigned to, so the function returns the
  caller's frame as it is when the call ends, together with the exception raised
  or the frame returned. \<open>clean_text_fn\<close> is the callable passed as
  \<^verbatim>\<open>clean_text\<close>; it receives the cell, string or missing.
\<close>

definition handle_cold_start ::
  "dataframe \<Rightarrow> tfidf_vectorizer \<Rightarrow> (pystr option \<Rightarrow> exn + pystr) \<Rightarrow> matrix \<Rightarrow>
   real \<Rightarrow> real \<Rightarrow> dataframe \<times> (exn + dataframe)" where
  "handle_cold_start new_course_teacher_df tfidf clean_text_fn keywords_tfidf
       similarity_weight rating_weight =
     (case df_get new_course_teacher_df (str ''course_name'') of
        Inl e \<Rightarrow> (new_course_teacher_df, Inl e)
      | Inr cn \<Rightarrow>
     (case str_col_add_suffix cn (str '' '') of
        Inl e \<Rightarrow> (new_course_teacher_df, Inl e)
      | Inr cn_sp \<Rightarrow>
     (case df_get new_course_teacher_df (str ''teacher_name'') of
        Inl e \<Rightarrow> (new_course_teacher_df, Inl e)
      | Inr tn \<Rightarrow>
     (case str_col_add cn_sp tn of
        Inl e \<Rightarrow> (new_course_teacher_df, Inl e)
      | Inr subst \<Rightarrow>
     (let df1 = df_put new_course_teacher_df substitute_text (StrCol subst) in
     (case series_apply clean_text_fn subst of
        Inl e \<Rightarrow> (df1, Inl e)
      | Inr cleaned \<Rightarrow>
     (let df2 = df_put df1 cleaned_substitute_text (StrCol (map Some cleaned)) in
     (case transform tfidf (map Some cleaned) of
        Inl e \<Rightarrow> (df2, Inl e)
      | Inr new_tfidf_matrix \<Rightarrow>
     (case cosine_similarity keywords_tfidf new_tfidf_matrix of
        Inl e \<Rightarrow> (df2, Inl e)
      | Inr sims \<Rightarrow>
     (let similarity_scores = flatten sims in
     (case df_select df2 [str ''course_name'', str ''teacher_name''] of
        Inl e \<Rightarrow> (df2, Inl e)
      | Inr r0 \<Rightarrow>
     (case df_set_array r0 (str ''similarity'') similarity_scores of
        Inl e \<Rightarrow> (df2, Inl e)
      | Inr r1 \<Rightarrow>
     (let r2 = df_set_scalar r1 (str ''avg_rating'') 0 in
     (case composite_column similarity_weight rating_weight r2 of
        Inl e \<Rightarrow> (df2, Inl e)
      | Inr composite \<Rightarrow>
          (df2, Inr (df_put r2 (str ''composite_score'') (NumCol composite)))))))))))))))))"

subsection \<open>\<^verbatim>\<open>recommend_courses\<close> and \<^verbatim>\<open>final_recommend\<close>\<close>

text \<open>
  \<^verbatim>\<open>
  def recommend_courses(keywords, course_teacher_tfidf, tfidf, tfidf_matrix, top_n=5,
                        similarity_weight=0.7, rating_weight=0.3):
      cleaned_keywords = clean_text(keywords)
      keywords_tfidf = tfidf.transform([cleaned_keywords])
      similarity_scores = cosine_similarity(keywords_tfidf, tfidf_matrix).flatten()
      temp_df = course_teacher_tfidf.copy()
      temp_df['similarity'] = similarity_scores
      temp_df['avg_rating'] = temp_df['avg_rating'].fillna(0)
      temp_df['composite_score'] = (
          similarity_weight * temp_df['similarity'] +
          rating_weight * temp_df['avg_rating'])
      return temp_df[['course_name', 'teacher_name', 'composite_score']] \
                 .sort_values(by='composite_score', ascending=False).head(top_n)
  \<close>
  The environment of the call is made explicit: the sort (\<open>argsort\<close>), the
  segmenter (\<open>lcut\<close>) and the stop word file read by \<^verbatim>\<open>clean_text\<close>. The frame is
  copied before it is assigned to, so the caller's frame is not part of the result.
\<close>

definition query_similarity ::
  "(pystr \<Rightarrow> pystr list) \<Rightarrow> exn + pystr list \<Rightarrow> pystr \<Rightarrow> tfidf_vectorizer \<Rightarrow> matrix \<Rightarrow>
   exn + real list" where
  "query_similarity lcut stopwords_file keywords tfidf tfidf_matrix =
     (case clean_text lcut stopwords_file keywords of
        Inl e \<Rightarrow> Inl e
      | Inr cleaned_keywords \<Rightarrow>
     (case transform tfidf [Some cleaned_keywords] of
        Inl e \<Rightarrow> Inl e
      | Inr keywords_tfidf \<Rightarrow>
     (case cosine_similarity keywords_tfidf tfidf_matrix of
        Inl e \<Rightarrow> Inl e
      | Inr sims \<Rightarrow> Inr (flatten sims))))"

definition recommend_courses ::
  "(real list \<Rightarrow> nat list) \<Rightarrow> (pystr \<Rightarrow> pystr list) \<Rightarrow> exn + pystr list \<Rightarrow>
   pystr \<Rightarrow> dataframe \<Rightarrow> tfidf_vectorizer \<Rightarrow> matrix \<Rightarrow> int \<Rightarrow> real \<Rightarrow> real \<Rightarrow>
   exn + dataframe" where
  "recommend_courses argsort lcut stopwords_file
       keywords course_teacher_tfidf tfidf tfidf_matrix top_n similarity_weight rating_weight =
     (case query_similarity lcut stopwords_file keywords tfidf tfidf_matrix of
        Inl e \<Rightarrow> Inl e
      | Inr similarity_scores \<Rightarrow>
     (let temp_df = course_teacher_tfidf in
     (case df_set_array temp_df (str ''similarity'') similarity_scores of
        Inl e \<Rightarrow> Inl e
      | Inr temp_df1 \<Rightarrow>
     (case df_get temp_df1 (str ''avg_rating'') of
        Inl e \<Rightarrow> Inl e
      | Inr rating \<Rightarrow>
     (let temp_df2 = df_put temp_df1 (str ''avg_rating'') (fillna0 rating) in
     (case composite_column similarity_weight rating_weight temp_df2 of
        Inl e \<Rightarrow> Inl e
      | Inr composite \<Rightarrow>
     (let temp_df3 = df_put temp_df2 (str ''composite_score'') (NumCol composite) in
     (case df_select temp_df3
             [str ''course_name'', str ''teacher_name'', str ''composite_score''] of
        Inl e \<Rightarrow> Inl e
      | Inr selected \<Rightarrow>
          Inr (df_head top_n (sort_values_desc argsort composite selected))))))))))"

text \<open>
  \<^verbatim>\<open>
  def final_recommend(keywords, course_teacher_tfidf, tfidf, tfidf_matrix, top_n=5):
      return recommend_courses(keywords, course_teacher_tfidf, tfidf, tfidf_matrix, top_n)
  \<close>
  The weights are the defaults of \<^verbatim>\<open>recommend_courses\<close>.
\<close>

definition final_recommend ::
  "(real list \<Rightarrow> nat list) \<Rightarrow> (pystr \<Rightarrow> pystr list) \<Rightarrow> exn + pystr list \<Rightarrow>
   pystr \<Rightarrow> dataframe \<Rightarrow> tfidf_vectorizer \<Rightarrow> matrix \<Rightarrow> int \<Rightarrow> exn + dataframe" where
  "final_recommend argsort lcut stopwords_file keywords course_teacher_tfidf tfidf tfidf_matrix
       top_n =
     recommend_courses argsort lcut stopwords_file keywords course_teacher_tfidf tfidf
       tfidf_matrix top_n (7 / 10) (3 / 10)"

subsection \<open>\<^verbatim>\<open>load_resources\<close> and \<^verbatim>\<open>main\<close>\<close>

text \<open>What the page shows, in the order of the calls to streamlit.\<close>

datatype ui_event =
    Load_success
  | Load_error exn
  | Init_failed
  | Sidebar_info nat nat
  | Stopword_count nat
  | Warn_no_keywords
  | Show_recommendations dataframe
  | No_recommendations
  | Rerun

text \<open>\<^verbatim>\<open>tfidf.transform(df['cleaned_review'])\<close>: the documents are the values of
  the column; a float is not a document.\<close>

fun transform_column :: "tfidf_vectorizer \<Rightarrow> column \<Rightarrow> exn + matrix" where
  "transform_column tfidf (StrCol xs) = transform tfidf xs"
| "transform_column tfidf (NumCol xs) =
     (if xs = [] then Inl ValueError else Inl AttributeError)"

text \<open>
  \<^verbatim>\<open>
  def load_resources():
      try:
          tfidf = joblib.load(r'd:/.../tfidf_model.pkl')
          course_teacher_tfidf = pd.read_pickle(r'd:/.../course_teacher_tfidf.pkl')
          tfidf_matrix = tfidf.transform(course_teacher_tfidf['cleaned_review'])
          st.success(...)
          return tfidf, course_teacher_tfidf, tfidf_matrix
      except Exception as e:
          st.error(f"...: {e}")
          return None, None, None
  \<close>
  \<open>joblib_load\<close> and \<open>read_pickle\<close> are the outcomes of the two reads. The function
  has no exceptional exit: whatever the body raises is caught. The decorator
  \<^verbatim>\<open>st.cache_resource\<close> stores the returned value for later runs and is not
  modelled.
\<close>

definition load_resources ::
  "exn + tfidf_vectorizer \<Rightarrow> exn + dataframe \<Rightarrow>
   ui_event list \<times> (tfidf_vectorizer option \<times> dataframe option \<times> matrix option)" where
  "load_resources joblib_load read_pickle =
     (case (case joblib_load of
              Inl e \<Rightarrow> Inl e
            | Inr tfidf \<Rightarrow>
           (case read_pickle of
              Inl e \<Rightarrow> Inl e
            | Inr course_teacher_tfidf \<Rightarrow>
           (case df_get course_teacher_tfidf (str ''cleaned_review'') of
              Inl e \<Rightarrow> Inl e
            | Inr reviews \<Rightarrow>
           (case transform_column tfidf reviews of
              Inl e \<Rightarrow> Inl e
            | Inr tfidf_matrix \<Rightarrow> Inr (tfidf, course_teacher_tfidf, tfidf_matrix))))) of
        Inl e \<Rightarrow> ([Load_error e], (None, None, None))
      | Inr (tfidf, course_teacher_tfidf, tfidf_matrix) \<Rightarrow>
          ([Load_success], (Some tfidf, Some course_teacher_tfidf, Some tfidf_matrix)))"

record session_state =
  user_keywords :: pystr
  new_courses :: dataframe
  recommendations :: dataframe
  current_step :: nat

record widgets =
  keywords_input :: pystr
  submit_clicked :: bool
  restart_clicked :: bool

text \<open>\<^verbatim>\<open>init_session_state\<close>: a session seen for the first time (\<open>None\<close>) gets the
  initial values.\<close>

definition init_session_state :: "session_state option \<Rightarrow> session_state" where
  "init_session_state s =
     (case s of
        None \<Rightarrow> \<lparr>user_keywords = [], new_courses = [], recommendations = [], current_step = 1\<rparr>
      | Some st \<Rightarrow> st)"

text \<open>The button \<^verbatim>\<open>restart\<close> at the end of \<^verbatim>\<open>main\<close>.\<close>

definition restart_button :: "widgets \<Rightarrow> ui_event list \<Rightarrow> session_state \<Rightarrow>
    ui_event list \<times> (exn + session_state)" where
  "restart_button w events st =
     (if restart_clicked w
      then (events @ [Rerun],
            Inr (st\<lparr>current_step := 1, user_keywords := [], new_courses := [],
                     recommendations := []\<rparr>))
      else (events, Inr st))"

text \<open>
  \<^verbatim>\<open>main\<close>, one run of the script: the resources are loaded; if any of the three
  is missing the run reports it and returns; otherwise the side bar is filled (which
  reads the stop word file once more), and the step of the session decides between
  the input form and the recommendations, computed by \<^verbatim>\<open>final_recommend\<close> with its
  default \<^verbatim>\<open>top_n=5\<close>. \<^verbatim>\<open>st.rerun()\<close> ends the run. Headers, the progress bar
  and the other widgets without data of the program are left out.
\<close>

definition main ::
  "(real list \<Rightarrow> nat list) \<Rightarrow> (pystr \<Rightarrow> pystr list) \<Rightarrow> exn + pystr list \<Rightarrow>
   exn + tfidf_vectorizer \<Rightarrow> exn + dataframe \<Rightarrow> widgets \<Rightarrow> session_state option \<Rightarrow>
   ui_event list \<times> (exn + session_state)" where
  "main argsort lcut stopwords_file joblib_load read_pickle w s0 =
     (let st = init_session_state s0;
          (events, loaded) = load_resources joblib_load read_pickle
      in case loaded of
           (Some tfidf, Some course_teacher_tfidf, Some tfidf_matrix) \<Rightarrow>
             (let events1 = events @
                    [Sidebar_info (nrows course_teacher_tfidf) (n_features tfidf_matrix)]
              in case stopwords_file of
                   Inl e \<Rightarrow> (events1, Inl e)
                 | Inr lines \<Rightarrow>
                     (let events2 = events1 @ [Stopword_count (length lines)]
                      in if current_step st = 1 then
                           (let st1 = st\<lparr>user_keywords := keywords_input w\<rparr>
                            in if submit_clicked w then
                                 (if user_keywords st1 = []
                                  then restart_button w (events2 @ [Warn_no_keywords]) st1
                                  else (events2 @ [Rerun], Inr (st1\<lparr>current_step := 2\<rparr>)))
                               else restart_button w events2 st1)
                         else if current_step st = 2 then
                           (case final_recommend argsort lcut stopwords_file (user_keywords st)
                                   course_teacher_tfidf tfidf tfidf_matrix 5 of
                              Inl e \<Rightarrow> (events2, Inl e)
                            | Inr recs \<Rightarrow>
                                (let st1 = st\<lparr>recommendations := recs\<rparr>
                                 in if recs \<noteq> [] \<and> 0 < nrows recs then
                                      (case df_select recs [str ''course_name'',
                                              str ''teacher_name'', str ''composite_score''] of
                                         Inl e \<Rightarrow> (events2, Inl e)
                                       | Inr shown \<Rightarrow>
                                           restart_button w
                                             (events2 @ [Show_recommendations shown]) st1)
                                    else restart_button w (events2 @ [No_recommendations]) st1))
                         else restart_button w events2 st))
         | _ \<Rightarrow> (events @ [Init_failed], Inr st))"

subsection \<open>Notions used to state the properties\<close>

text \<open>The value a rating contributes after \<^verbatim>\<open>fillna(0)\<close>.\<close>

definition rating_or_zero :: "real option \<Rightarrow> real" where
  "rating_or_zero r = (case r of None \<Rightarrow> 0 | Some v \<Rightarrow> v)"

text \<open>The composite scores of the rows with the similarities \<open>sims\<close> and the
  ratings \<open>rs\<close>.\<close>

definition composite_scores :: "real \<Rightarrow> real \<Rightarrow> real list \<Rightarrow> real option list \<Rightarrow> real list" where
  "composite_scores similarity_weight rating_weight sims rs =
     map2 (\<lambda>s r. similarity_weight * s + rating_weight * rating_or_zero r) sims rs"

text \<open>The frame of three columns that lists the catalog rows at the positions
  \<open>order\<close>, with the scores \<open>ks\<close> of the catalog rows.\<close>

definition ranking_rows :: "nat list \<Rightarrow> column \<Rightarrow> column \<Rightarrow> real list \<Rightarrow> dataframe" where
  "ranking_rows order cn tn ks =
     [(str ''course_name'', col_take order cn),
      (str ''teacher_name'', col_take order tn),
      (str ''composite_score'', NumCol (map (\<lambda>i. Some (ks ! i)) order))]"

subsection \<open>Example data\<close>

text \<open>The default word analyzer of the vectorizer on text made of letters and
  whitespace: the runs of two or more letters.\<close>

definition word_analyzer :: "pystr \<Rightarrow> pystr list" where
  "word_analyzer text = filter (\<lambda>w. 2 \<le> length w) (latin_lcut text)"

definition ex_tfidf :: tfidf_vectorizer where
  "ex_tfidf = \<lparr>analyzer = word_analyzer, vocabulary = [(str ''clear'', 1), (str ''hard'', 1)]\<rparr>"

text \<open>A catalog of two courses and its matrix, one row per course.\<close>

definition ex_catalog :: dataframe where
  "ex_catalog =
     [(str ''course_name'', StrCol [Some (str ''calc''), Some (str ''chem'')]),
      (str ''teacher_name'', StrCol [Some (str ''lee''), Some (str ''shah'')]),
      (str ''cleaned_review'', StrCol [Some (str ''clear''), Some (str ''hard'')]),
      (str ''avg_rating'', NumCol [Some (9 / 2), Some 3])]"

definition ex_matrix :: matrix where
  "ex_matrix = [[1, 0], [0, 1]]"

text \<open>A catalog with the same columns and no rows, and its matrix.\<close>

definition ex_empty_catalog :: dataframe where
  "ex_empty_catalog =
     [(str ''course_name'', StrCol []),
      (str ''teacher_name'', StrCol []),
      (str ''cleaned_review'', StrCol []),
      (str ''avg_rating'', NumCol [])]"

text \<open>A new course without reviews, whose row carries a rating all the same.\<close>

definition ex_new_courses :: dataframe where
  "ex_new_courses =
     [(str ''course_name'', StrCol [Some (str ''clear'')]),
      (str ''teacher_name'', StrCol [Some (str ''lee'')]),
      (str ''avg_rating'', NumCol [Some 5])]"

section \<open>Properties\<close>

subsection \<open>Norms and cosine similarity\<close>

lemma sum_squares_nonneg: "0 \<le> sum_list (map (\<lambda>a. a * a) (x::real list))"
  by (induction x) auto

lemma sum_squares_zero_iff: "sum_list (map (\<lambda>a. a * a) (x::real list)) = 0 \<longleftrightarrow> (\<forall>a \<in> set x. a = 0)"
proof (induction x)
  case Nil
  then show ?case by simp
next
  case (Cons a x)
  have "a * a + sum_list (map (\<lambda>a. a * a) x) = 0 \<longleftrightarrow> a * a = 0 \<and> sum_list (map (\<lambda>a. a * a) x) = 0"
    using sum_squares_nonneg [of x] by (simp add: add_nonneg_eq_0_iff)
  with Cons show ?case by simp
qed

lemma l2_norm_nonneg: "0 \<le> l2_norm x"
  by (simp add: l2_norm_def sum_squares_nonneg)

lemma l2_norm_zero_iff: "l2_norm x = 0 \<longleftrightarrow> (\<forall>a \<in> set x. a = 0)"
  by (simp add: l2_norm_def sum_squares_zero_iff)

lemma normalize_l2_zero: "l2_norm x = 0 \<Longrightarrow> normalize_l2 x = x"
  by (simp add: normalize_l2_def)

lemma dot_zero_left: "\<forall>a \<in> set x. a = 0 \<Longrightarrow> dot x y = 0"
  unfolding dot_def by (induction x arbitrary: y) (auto simp: zip_Cons1 split: list.splits)

lemma dot_zero_right: "\<forall>a \<in> set y. a = 0 \<Longrightarrow> dot x y = 0"
  unfolding dot_def by (induction x arbitrary: y) (auto simp: zip_Cons1 split: list.splits)

lemma cosine_row_zero_norm: "l2_norm x = 0 \<or> l2_norm y = 0 \<Longrightarrow> cosine_row x y = 0"
  unfolding cosine_row_def
  using dot_zero_left dot_zero_right l2_norm_zero_iff normalize_l2_zero by metis

lemma l2_norm_Cons: "l2_norm (a # x) = sqrt (a\<^sup>2 + (l2_norm x)\<^sup>2)"
  by (simp add: l2_norm_def sum_squares_nonneg power2_eq_square)

lemma cs2: "0 \<le> A \<Longrightarrow> 0 \<le> B \<Longrightarrow> \<bar>a * b\<bar> + A * B \<le> sqrt (a\<^sup>2 + A\<^sup>2) * sqrt (b\<^sup>2 + B\<^sup>2)"
proof -
  assume AB: "0 \<le> A" "0 \<le> B"
  have "(\<bar>a * b\<bar> + A * B)\<^sup>2 \<le> (a\<^sup>2 + A\<^sup>2) * (b\<^sup>2 + B\<^sup>2)"
  proof -
    have "(a\<^sup>2 + A\<^sup>2) * (b\<^sup>2 + B\<^sup>2) - (\<bar>a * b\<bar> + A * B)\<^sup>2 = (\<bar>a\<bar> * B - \<bar>b\<bar> * A)\<^sup>2"
      by (simp add: power2_eq_square algebra_simps abs_mult)
    moreover have "0 \<le> (\<bar>a\<bar> * B - \<bar>b\<bar> * A)\<^sup>2" by simp
    ultimately show ?thesis by linarith
  qed
  then have "sqrt ((\<bar>a * b\<bar> + A * B)\<^sup>2) \<le> sqrt ((a\<^sup>2 + A\<^sup>2) * (b\<^sup>2 + B\<^sup>2))"
    by (rule real_sqrt_le_mono)
  moreover have "0 \<le> \<bar>a * b\<bar> + A * B" using AB by simp
  ultimately show ?thesis by (simp add: real_sqrt_mult)
qed

lemma cauchy_schwarz: "\<bar>dot x y\<bar> \<le> l2_norm x * l2_norm y"
proof (induction x arbitrary: y)
  case Nil
  then show ?case by (simp add: dot_def l2_norm_def)
next
  case (Cons a x)
  show ?case
  proof (cases y)
    case Nil
    then show ?thesis by (simp add: dot_def l2_norm_nonneg)
  next
    case (Cons b y')
    have "\<bar>dot (a # x) (b # y')\<bar> \<le> \<bar>a * b\<bar> + \<bar>dot x y'\<bar>"
      by (simp add: dot_def)
    also have "\<dots> \<le> \<bar>a * b\<bar> + l2_norm x * l2_norm y'"
      using Cons.IH [of y'] by simp
    also have "\<dots> \<le> l2_norm (a # x) * l2_norm (b # y')"
      using cs2 [OF l2_norm_nonneg l2_norm_nonneg] by (simp add: l2_norm_Cons)
    finally show ?thesis using Cons by simp
  qed
qed

lemma l2_norm_scale: "l2_norm (map (\<lambda>a. a / n) x) = l2_norm x / \<bar>n\<bar>"
proof -
  have "sum_list (map (\<lambda>a. a * a) (map (\<lambda>a. a / n) x)) = sum_list (map (\<lambda>a. a * a) x) / (n * n)"
    by (induction x) (auto simp: add_divide_distrib)
  then show ?thesis
    by (simp add: l2_norm_def real_sqrt_divide)
qed

lemma l2_norm_normalize_le: "l2_norm (normalize_l2 x) \<le> 1"
  using l2_norm_nonneg [of x] by (simp add: normalize_l2_def l2_norm_scale Let_def)

lemma cosine_row_abs_le: "\<bar>cosine_row x y\<bar> \<le> 1"
proof -
  have "\<bar>cosine_row x y\<bar> \<le> l2_norm (normalize_l2 x) * l2_norm (normalize_l2 y)"
    unfolding cosine_row_def by (rule cauchy_schwarz)
  also have "\<dots> \<le> 1 * 1"
    by (intro mult_mono l2_norm_normalize_le l2_norm_nonneg) simp
  finally show ?thesis by simp
qed

lemma dot_nonneg: "\<forall>a \<in> set x. 0 \<le> a \<Longrightarrow> \<forall>b \<in> set y. 0 \<le> b \<Longrightarrow> 0 \<le> dot x y"
  unfolding dot_def by (induction x arbitrary: y) (auto simp: zip_Cons1 split: list.splits)

lemma normalize_l2_nonneg: "\<forall>a \<in> set x. 0 \<le> a \<Longrightarrow> \<forall>a \<in> set (normalize_l2 x). 0 \<le> a"
  using l2_norm_nonneg [of x] by (auto simp: normalize_l2_def Let_def)

lemma cosine_row_nonneg:
  "\<forall>a \<in> set x. 0 \<le> a \<Longrightarrow> \<forall>b \<in> set y. 0 \<le> b \<Longrightarrow> 0 \<le> cosine_row x y"
  unfolding cosine_row_def by (intro dot_nonneg normalize_l2_nonneg)

subsection \<open>Frames\<close>

lemma map_of_df_put: "map_of (df_put df n c) = (map_of df)(n \<mapsto> c)"
  by (induction df n c rule: df_put.induct) auto

lemma df_get_df_put: "df_get (df_put df n c) m = (if m = n then Inr c else df_get df m)"
  by (simp add: df_get_def map_of_df_put)

lemma columns_df_put:
  "columns (df_put df n c) = (if n \<in> set (columns df) then columns df else columns df @ [n])"
  unfolding columns_def by (induction df n c rule: df_put.induct) auto

lemma columns_df_select: "df_select df ns = Inr r \<Longrightarrow> columns r = ns"
  by (induction ns arbitrary: r) (auto simp: columns_def split: sum.splits)

lemma columns_take_rows: "columns (take_rows order df) = columns df"
  by (simp add: columns_def take_rows_def case_prod_unfold comp_def)

lemma columns_df_head: "columns (df_head n df) = columns df"
  by (simp add: df_head_def columns_take_rows)

lemma columns_sort_values_desc: "columns (sort_values_desc argsort keys df) = columns df"
  by (simp add: sort_values_desc_def Let_def columns_take_rows)

lemma columns_df_set_array: "df_set_array df n vals = Inr r \<Longrightarrow>
   columns r = (if n \<in> set (columns df) then columns df else columns df @ [n])"
proof -
  assume a: "df_set_array df n vals = Inr r"
  have b: "columns (map (\<lambda>(m, c). (m, blank_col (length vals) c)) df) = columns df"
    by (simp add: columns_def case_prod_unfold comp_def)
  from a have "r = df_put (map (\<lambda>(m, c). (m, blank_col (length vals) c)) df) n (NumCol (map Some vals))
      \<or> r = df_put df n (NumCol (map Some vals))"
    by (auto simp: df_set_array_def split: if_splits)
  then show ?thesis
    using b by (auto simp: columns_df_put)
qed

lemma col_len_col_take: "col_len (col_take order c) = length order"
  by (cases c) auto

lemma nrows_take_rows: "df \<noteq> [] \<Longrightarrow> nrows (take_rows order df) = length order"
  by (cases df) (auto simp: nrows_def take_rows_def col_len_col_take)

lemma str_neq [simp]:
  "str ''similarity'' \<noteq> str ''avg_rating''"
  "str ''similarity'' \<noteq> str ''composite_score''"
  "str ''similarity'' \<noteq> str ''course_name''"
  "str ''similarity'' \<noteq> str ''teacher_name''"
  "str ''avg_rating'' \<noteq> str ''composite_score''"
  "str ''avg_rating'' \<noteq> str ''course_name''"
  "str ''avg_rating'' \<noteq> str ''teacher_name''"
  "str ''composite_score'' \<noteq> str ''course_name''"
  "str ''composite_score'' \<noteq> str ''teacher_name''"
  "str ''course_name'' \<noteq> str ''teacher_name''"
  "substitute_text \<noteq> str ''course_name''"
  "substitute_text \<noteq> str ''teacher_name''"
  "cleaned_substitute_text \<noteq> str ''course_name''"
  "cleaned_substitute_text \<noteq> str ''teacher_name''"
  "substitute_text \<noteq> cleaned_substitute_text"
  by (simp_all add: str_def substitute_text_def cleaned_substitute_text_def)

lemmas str_neq_sym [simp] = str_neq [symmetric]

subsection \<open>The sort\<close>

lemma sorts_descending_set: "sorts_descending argsort \<Longrightarrow> set (argsort ks) = {..<length ks}"
proof -
  assume "sorts_descending argsort"
  then have "mset (argsort ks) = mset [0..<length ks]"
    by (simp add: sorts_descending_def)
  then have "set (argsort ks) = set [0..<length ks]"
    by (rule mset_eq_setD)
  then show ?thesis by (simp add: lessThan_atLeast0)
qed

lemma sorts_descending_length: "sorts_descending argsort \<Longrightarrow> length (argsort ks) = length ks"
proof -
  assume "sorts_descending argsort"
  then have "mset (argsort ks) = mset [0..<length ks]"
    by (simp add: sorts_descending_def)
  then have "length (argsort ks) = length [0..<length ks]"
    by (rule mset_eq_length)
  then show ?thesis by simp
qed

lemma sorts_descending_distinct: "sorts_descending argsort \<Longrightarrow> distinct (argsort ks)"
proof -
  assume "sorts_descending argsort"
  then have "mset (argsort ks) = mset [0..<length ks]"
    by (simp add: sorts_descending_def)
  then show ?thesis
    using distinct_upt mset_eq_imp_distinct_iff by blast
qed

lemma sorts_descending_sorted:
  "sorts_descending argsort \<Longrightarrow> sorted_wrt (\<lambda>i j. ks ! i \<ge> ks ! j) (argsort ks)"
  by (simp add: sorts_descending_def)

lemma filter_upt_all: "filter (\<lambda>i. (map Some ks) ! i \<noteq> None) [0..<length ks] = [0..<length ks]"
  by (rule filter_True) simp

lemma filter_upt_none: "filter (\<lambda>i. (map Some ks) ! i = None) [0..<length ks] = []"
  by (rule filter_False) simp

lemma sort_values_desc_present:
  assumes "sorts_descending argsort"
  shows "sort_values_desc argsort (map Some ks) df = take_rows (argsort ks) df"
proof -
  have keys: "map (\<lambda>i. the (map Some ks ! i)) [0..<length ks] = ks"
    by (rule nth_equalityI) simp_all
  have "map (\<lambda>j. [0..<length ks] ! j) (argsort ks) = argsort ks"
    using sorts_descending_set [OF assms, of ks] by (intro map_idI) auto
  then show ?thesis
    by (simp add: sort_values_desc_def filter_upt_all filter_upt_none keys)
qed

lemma col_take_col_take:
  "set a \<subseteq> {..<length b} \<Longrightarrow> col_take a (col_take b c) = col_take (map (\<lambda>i. b ! i) a) c"
  by (cases c) auto

lemma map_nth_upt_take: "k \<le> length xs \<Longrightarrow> map (\<lambda>i. xs ! i) [0..<k] = take k xs"
  by (rule nth_equalityI) simp_all

lemma head_count_le: "head_count n len \<le> len"
  by (simp add: head_count_def)

lemma take_rows_selected:
  assumes "set order \<subseteq> {..<length ks}"
  shows "take_rows order [(str ''course_name'', cn), (str ''teacher_name'', tn),
            (str ''composite_score'', NumCol (map Some ks))] = ranking_rows order cn tn ks"
proof -
  have "map (\<lambda>i. map Some ks ! i) order = map (\<lambda>i. Some (ks ! i)) order"
    using assms by (intro map_cong) auto
  then show ?thesis
    by (simp add: take_rows_def ranking_rows_def)
qed

lemma nrows_ranking_rows: "nrows (ranking_rows order cn tn ks) = length order"
  by (simp add: ranking_rows_def nrows_def col_len_col_take)

lemma columns_ranking_rows:
  "columns (ranking_rows order cn tn ks) =
     [str ''course_name'', str ''teacher_name'', str ''composite_score'']"
  by (simp add: ranking_rows_def columns_def)

lemma df_head_ranking_rows:
  "df_head top_n (ranking_rows order cn tn ks) =
     ranking_rows (take (head_count top_n (length order)) order) cn tn ks"
proof -
  define k where "k = head_count top_n (length order)"
  have k: "k \<le> length order"
    by (simp add: k_def head_count_le)
  then have sub: "set [0..<k] \<subseteq> {..<length order}"
    by auto
  have tk: "map (\<lambda>i. order ! i) [0..<k] = take k order"
    using k by (rule map_nth_upt_take)
  have sc: "map (\<lambda>i. map (\<lambda>i. Some (ks ! i)) order ! i) [0..<k] =
        map (\<lambda>i. Some (ks ! i)) (take k order)"
    using k by (intro nth_equalityI) simp_all
  have "take_rows [0..<k] (ranking_rows order cn tn ks) = ranking_rows (take k order) cn tn ks"
    using sub by (simp add: take_rows_def ranking_rows_def col_take_col_take tk sc)
  then show ?thesis
    by (simp add: df_head_def nrows_ranking_rows k_def)
qed

lemma sorts_descending_stable_argsort: "sorts_descending stable_argsort"
  unfolding sorts_descending_def
proof (intro allI conjI)
  fix ks :: "real list"
  show "mset (stable_argsort ks) = mset [0..<length ks]"
    by (simp add: stable_argsort_def)
  have "sorted (map (\<lambda>i. ks ! i) (sort_key (\<lambda>i. ks ! i) (rev [0..<length ks])))"
    by (rule sorted_sort_key)
  then have "sorted_wrt (\<lambda>i j. ks ! i \<le> ks ! j) (sort_key (\<lambda>i. ks ! i) (rev [0..<length ks]))"
    by (simp add: sorted_map)
  then show "sorted_wrt (\<lambda>i j. ks ! i \<ge> ks ! j) (stable_argsort ks)"
    by (simp add: stable_argsort_def sorted_wrt_rev)
qed

lemma df_wf_col_len: "df_wf df \<Longrightarrow> df_get df n = Inr c \<Longrightarrow> col_len c = nrows df"
proof -
  assume wf: "df_wf df" and g: "df_get df n = Inr c"
  from g have "map_of df n = Some c"
    by (simp add: df_get_def split: option.splits)
  then have "(n, c) \<in> set df"
    by (rule map_of_SomeD)
  then have "c \<in> set (map snd df)"
    by force
  with wf show ?thesis
    unfolding df_wf_def by blast
qed

subsection \<open>The similarity of a query\<close>

lemma length_normalize_l2 [simp]: "length (normalize_l2 x) = length x"
  by (simp add: normalize_l2_def Let_def)

lemma length_tfidf_row [simp]: "length (tfidf_row tfidf doc) = length (vocabulary tfidf)"
  by (simp add: tfidf_row_def Let_def)

lemma transform_single:
  "vocabulary tfidf \<noteq> [] \<Longrightarrow> transform tfidf [Some doc] = Inr [tfidf_row tfidf doc]"
  by (simp add: transform_def)

lemma cosine_similarity_single:
  assumes "q \<noteq> []" "M \<noteq> []" "n_features M = length q"
  shows "cosine_similarity [q] M = Inr [map (\<lambda>y. cosine_row q y) M]"
  using assms by (simp add: cosine_similarity_def n_features_def)

lemma query_similarity_eq:
  assumes "clean_text lcut stopwords_file keywords = Inr cleaned"
    and "vocabulary tfidf \<noteq> []"
    and "M \<noteq> []"
    and "n_features M = length (vocabulary tfidf)"
  shows "query_similarity lcut stopwords_file keywords tfidf M =
           Inr (map (\<lambda>y. cosine_row (tfidf_row tfidf cleaned) y) M)"
proof -
  have "tfidf_row tfidf cleaned \<noteq> []"
    using assms(2) length_tfidf_row [of tfidf cleaned] by (metis length_0_conv)
  then have "cosine_similarity [tfidf_row tfidf cleaned] M =
      Inr [map (\<lambda>y. cosine_row (tfidf_row tfidf cleaned) y) M]"
    using assms(3,4) by (intro cosine_similarity_single) simp_all
  then show ?thesis
    using assms(1,2) by (simp add: query_similarity_def transform_single flatten_def)
qed

lemma clean_text_returns:
  "clean_text lcut (Inr lines) text =
     Inr (join_space (filter (\<lambda>word. word \<notin> set (map strip lines)) (lcut (preprocess text))))"
  by (simp add: clean_text_def preprocess_def Let_def)

subsection \<open>The main scoring path\<close>

lemma weighted_rating:
  "map_option (\<lambda>x. wr * x) (case r of None \<Rightarrow> Some 0 | Some v \<Rightarrow> Some v) =
     Some (wr * rating_or_zero r)"
  by (cases r) (simp_all add: rating_or_zero_def)

lemma composite_column_eq:
  assumes "df_get df (str ''similarity'') = Inr (NumCol (map Some sims))"
    and "df_get df (str ''avg_rating'') = Inr (fillna0 (NumCol rs))"
    and "length sims = length rs"
  shows "composite_column ws wr df = Inr (map Some (composite_scores ws wr sims rs))"
proof -
  have "map2 add_opt (map (map_option (\<lambda>x. ws * x)) (map Some sims))
          (map (map_option (\<lambda>x. wr * x))
             (map (\<lambda>x. case x of None \<Rightarrow> Some 0 | Some v \<Rightarrow> Some v) rs)) =
        map Some (composite_scores ws wr sims rs)"
    using assms(3)
    by (intro nth_equalityI) (simp_all add: composite_scores_def add_opt_def weighted_rating)
  then show ?thesis
    using assms(1,2) by (simp add: composite_column_def)
qed

lemma length_composite_scores:
  "length sims = length rs \<Longrightarrow> length (composite_scores ws wr sims rs) = length rs"
  by (simp add: composite_scores_def)

lemma recommend_courses_eq:
  assumes sorter: "sorts_descending argsort"
    and sims: "query_similarity lcut stopwords_file keywords tfidf M = Inr sims"
    and aligned: "length sims = nrows catalog"
    and cn: "df_get catalog (str ''course_name'') = Inr cn"
    and tn: "df_get catalog (str ''teacher_name'') = Inr tn"
    and rs: "df_get catalog (str ''avg_rating'') = Inr (NumCol rs)"
    and len: "length rs = nrows catalog"
  shows "recommend_courses argsort lcut stopwords_file keywords catalog tfidf M top_n ws wr =
           Inr (ranking_rows
                  (take (head_count top_n (nrows catalog))
                     (argsort (composite_scores ws wr sims rs)))
                  cn tn (composite_scores ws wr sims rs))"
proof -
  define ks where "ks = composite_scores ws wr sims rs"
  define t1 where "t1 = df_put catalog (str ''similarity'') (NumCol (map Some sims))"
  define t2 where "t2 = df_put t1 (str ''avg_rating'') (fillna0 (NumCol rs))"
  define t3 where "t3 = df_put t2 (str ''composite_score'') (NumCol (map Some ks))"
  have lks: "length ks = nrows catalog"
    using aligned len by (simp add: ks_def length_composite_scores)
  have set1: "df_set_array catalog (str ''similarity'') sims = Inr t1"
    using aligned by (auto simp: df_set_array_def t1_def)
  have get1: "df_get t1 (str ''avg_rating'') = Inr (NumCol rs)"
    using rs by (simp add: t1_def df_get_df_put)
  have comp: "composite_column ws wr t2 = Inr (map Some ks)"
    unfolding ks_def
    using aligned len
    by (intro composite_column_eq) (simp_all add: t2_def t1_def df_get_df_put)
  have sel: "df_select t3 [str ''course_name'', str ''teacher_name'', str ''composite_score'']
      = Inr [(str ''course_name'', cn), (str ''teacher_name'', tn),
             (str ''composite_score'', NumCol (map Some ks))]"
    using cn tn by (simp add: t3_def t2_def t1_def df_get_df_put)
  have sub: "set (argsort ks) \<subseteq> {..<length ks}"
    using sorts_descending_set [OF sorter, of ks] by simp
  have "recommend_courses argsort lcut stopwords_file keywords catalog tfidf M top_n ws wr =
      Inr (df_head top_n (sort_values_desc argsort (map Some ks)
        [(str ''course_name'', cn), (str ''teacher_name'', tn),
         (str ''composite_score'', NumCol (map Some ks))]))"
    using sims set1 get1 comp sel
    by (simp add: recommend_courses_def Let_def t2_def [symmetric] t3_def [symmetric]
          del: fillna0.simps df_select.simps)
  also have "\<dots> = Inr (ranking_rows (take (head_count top_n (length (argsort ks))) (argsort ks)) cn tn ks)"
    using sub
    by (simp add: sort_values_desc_present [OF sorter] take_rows_selected df_head_ranking_rows)
  finally show ?thesis
    using lks by (simp add: ks_def sorts_descending_length [OF sorter])
qed

subsection \<open>The cold-start path\<close>

lemma series_apply_length: "series_apply f xs = Inr ys \<Longrightarrow> length ys = length xs"
  by (induction xs arbitrary: ys) (auto split: sum.splits)

lemma series_apply_nth:
  "series_apply f xs = Inr ys \<Longrightarrow> i < length xs \<Longrightarrow> f (xs ! i) = Inr (ys ! i)"
proof (induction xs arbitrary: ys i)
  case Nil
  then show ?case by simp
next
  case (Cons x xs)
  then show ?case
    by (cases i) (auto split: sum.splits)
qed

lemma series_apply_total:
  "(\<And>x. x \<in> set xs \<Longrightarrow> f x = Inr (g x)) \<Longrightarrow> series_apply f xs = Inr (map g xs)"
  by (induction xs) auto

lemma transform_strings:
  "docs \<noteq> [] \<Longrightarrow> vocabulary tfidf \<noteq> [] \<Longrightarrow>
   transform tfidf (map Some docs) = Inr (map (\<lambda>d. tfidf_row tfidf d) docs)"
  by (auto simp: transform_def comp_def)

lemma n_features_map_tfidf_row:
  "docs \<noteq> [] \<Longrightarrow> n_features (map (\<lambda>d. tfidf_row tfidf d) docs) = length (vocabulary tfidf)"
  by (cases docs) (simp_all add: n_features_def)

lemma handle_cold_start_eq:
  assumes cn: "df_get df (str ''course_name'') = Inr (StrCol cn)"
    and tn: "df_get df (str ''teacher_name'') = Inr (StrCol tn)"
    and len: "length cn = length tn"
    and app: "series_apply f (map2 cat_opt (map (map_option (\<lambda>x. x @ str '' '')) cn) tn) = Inr cleaned"
    and ne: "cn \<noteq> []"
    and voc: "vocabulary tfidf \<noteq> []"
    and q: "length q = length (vocabulary tfidf)"
  shows "handle_cold_start df tfidf f [q] ws wr =
     (df_put (df_put df substitute_text
                (StrCol (map2 cat_opt (map (map_option (\<lambda>x. x @ str '' '')) cn) tn)))
             cleaned_substitute_text (StrCol (map Some cleaned)),
      Inr [(str ''course_name'', StrCol cn),
           (str ''teacher_name'', StrCol tn),
           (str ''similarity'',
              NumCol (map Some (map (\<lambda>d. cosine_row q (tfidf_row tfidf d)) cleaned))),
           (str ''avg_rating'', NumCol (replicate (length cn) (Some 0))),
           (str ''composite_score'',
              NumCol (map Some (composite_scores ws wr
                 (map (\<lambda>d. cosine_row q (tfidf_row tfidf d)) cleaned)
                 (replicate (length cn) (Some 0)))))])"
proof -
  define subst where "subst = map2 cat_opt (map (map_option (\<lambda>x. x @ str '' '')) cn) tn"
  define df1 where "df1 = df_put df substitute_text (StrCol subst)"
  define df2 where "df2 = df_put df1 cleaned_substitute_text (StrCol (map Some cleaned))"
  define sims where "sims = map (\<lambda>d. cosine_row q (tfidf_row tfidf d)) cleaned"
  define r0 where "r0 = [(str ''course_name'', StrCol cn), (str ''teacher_name'', StrCol tn)]"
  define r1 where "r1 = df_put r0 (str ''similarity'') (NumCol (map Some sims))"
  define r2 where "r2 = df_put r1 (str ''avg_rating'') (NumCol (replicate (length cn) (Some 0)))"
  have lcl: "length cleaned = length cn"
    using series_apply_length [OF app] len by simp
  then have cne: "cleaned \<noteq> []"
    using ne by auto
  have qne: "q \<noteq> []"
    using q voc by auto
  have tr: "transform tfidf (map Some cleaned) = Inr (map (\<lambda>d. tfidf_row tfidf d) cleaned)"
    using cne voc by (rule transform_strings)
  have cs: "cosine_similarity [q] (map (\<lambda>d. tfidf_row tfidf d) cleaned) = Inr [sims]"
    using qne cne q
    by (simp add: cosine_similarity_single n_features_map_tfidf_row sims_def comp_def)
  have sel: "df_select df2 [str ''course_name'', str ''teacher_name''] = Inr r0"
    using cn tn by (simp add: df2_def df1_def r0_def df_get_df_put)
  have nr0: "nrows r0 = length cn"
    by (simp add: r0_def nrows_def)
  have set1: "df_set_array r0 (str ''similarity'') sims = Inr r1"
    using ne lcl by (simp add: df_set_array_def nr0 r1_def sims_def)
  have nr1: "nrows r1 = length cn"
    by (simp add: r1_def r0_def nrows_def)
  have sc: "df_set_scalar r1 (str ''avg_rating'') 0 = r2"
    by (simp add: df_set_scalar_def nr1 r2_def)
  have comp: "composite_column ws wr r2 =
      Inr (map Some (composite_scores ws wr sims (replicate (length cn) (Some 0))))"
    using lcl
    by (intro composite_column_eq)
       (simp_all add: r2_def r1_def r0_def df_get_df_put sims_def df_get_def)
  have "handle_cold_start df tfidf f [q] ws wr =
      (df2, Inr (df_put r2 (str ''composite_score'')
          (NumCol (map Some (composite_scores ws wr sims (replicate (length cn) (Some 0)))))))"
    using cn tn app tr cs sel set1 sc comp
    by (simp add: handle_cold_start_def Let_def flatten_def subst_def [symmetric]
        df1_def [symmetric] df2_def [symmetric] del: df_select.simps)
  then show ?thesis
    by (simp add: df2_def df1_def subst_def r2_def r1_def r0_def sims_def)
qed

section \<open>The claims\<close>

subsection \<open>Normalization\<close>




lemmas text_defs = str_def re_sub_disallowed_def lower_def lower_char_def is_allowed_def
  is_space_def latin_lcut_def strip_def preprocess_def




subsection \<open>Cosine similarity\<close>

lemma tfidf_row_no_terms:
  assumes "analyzer tfidf doc = []"
  shows "l2_norm (tfidf_row tfidf doc) = 0"
proof -
  define v where "v = map (\<lambda>(t, w). real (count_list ([] :: pystr list) t) * w) (vocabulary tfidf)"
  have "\<forall>a \<in> set v. a = 0"
    by (auto simp: v_def)
  then have n: "l2_norm v = 0"
    by (simp only: l2_norm_zero_iff)
  then have "normalize_l2 v = v"
    by (rule normalize_l2_zero)
  with n have "l2_norm (normalize_l2 v) = 0"
    by simp
  moreover have "tfidf_row tfidf doc = normalize_l2 v"
    by (simp only: tfidf_row_def v_def Let_def assms)
  ultimately show ?thesis
    by simp
qed

text \<open>
  C9: the similarity of two vectors is 0 whenever one of them has norm zero; the
  similarity of two matrices of matching, non-empty shape is always returned, never
  an exception; and a query that normalizes to the empty string, whose vector is
  zero, gets the similarity 0 against every row of the catalog matrix.
\<close>

theorem cosine_similarity_zero_norm:
  "(l2_norm x = 0 \<or> l2_norm y = 0 \<longrightarrow> cosine_row x y = 0) \<and>
   (X \<noteq> [] \<and> Y \<noteq> [] \<and> 0 < n_features X \<and> n_features X = n_features Y \<longrightarrow>
      cosine_similarity X Y = Inr (map (\<lambda>x. map (\<lambda>y. cosine_row x y) Y) X)) \<and>
   (clean_text lcut stopwords_file keywords = Inr [] \<and> analyzer tfidf [] = [] \<and>
    vocabulary tfidf \<noteq> [] \<and> M \<noteq> [] \<and> n_features M = length (vocabulary tfidf) \<longrightarrow>
      query_similarity lcut stopwords_file keywords tfidf M = Inr (replicate (length M) 0))"
proof (intro conjI impI)
  assume "l2_norm x = 0 \<or> l2_norm y = 0"
  then show "cosine_row x y = 0"
    by (rule cosine_row_zero_norm)
next
  assume "X \<noteq> [] \<and> Y \<noteq> [] \<and> 0 < n_features X \<and> n_features X = n_features Y"
  then show "cosine_similarity X Y = Inr (map (\<lambda>x. map (\<lambda>y. cosine_row x y) Y) X)"
    by (simp add: cosine_similarity_def)
next
  assume a: "clean_text lcut stopwords_file keywords = Inr [] \<and> analyzer tfidf [] = [] \<and>
    vocabulary tfidf \<noteq> [] \<and> M \<noteq> [] \<and> n_features M = length (vocabulary tfidf)"
  then have "query_similarity lcut stopwords_file keywords tfidf M =
      Inr (map (\<lambda>y. cosine_row (tfidf_row tfidf []) y) M)"
    by (intro query_similarity_eq) simp_all
  moreover have "cosine_row (tfidf_row tfidf []) y = 0" for y
    using a by (intro cosine_row_zero_norm disjI1 tfidf_row_no_terms) simp
  ultimately show "query_similarity lcut stopwords_file keywords tfidf M =
      Inr (replicate (length M) 0)"
    by (simp add: map_replicate_const)
qed

theorem cosine_similarity_zero_norm_witness:
  "cosine_row [0, 0] [1, 0] = 0 \<and>
   cosine_similarity [[0, 0]] ex_matrix =
     Inr (map (\<lambda>x. map (\<lambda>y. cosine_row x y) ex_matrix) [[0, 0]]) \<and>
   query_similarity latin_lcut (Inr []) [] ex_tfidf ex_matrix =
     Inr (replicate (length ex_matrix) 0)"
proof -
  have a: "l2_norm [0, 0] = 0 \<or> l2_norm [1, 0] = 0"
    by (simp add: l2_norm_def)
  have b: "[[0, 0]] \<noteq> [] \<and> ex_matrix \<noteq> [] \<and> 0 < n_features [[0, 0 :: real]] \<and>
      n_features [[0, 0]] = n_features ex_matrix"
    by (simp add: ex_matrix_def n_features_def)
  have c: "clean_text latin_lcut (Inr []) [] = Inr [] \<and> analyzer ex_tfidf [] = [] \<and>
      vocabulary ex_tfidf \<noteq> [] \<and> ex_matrix \<noteq> [] \<and>
      n_features ex_matrix = length (vocabulary ex_tfidf)"
    by (simp add: clean_text_def text_defs ex_tfidf_def word_analyzer_def ex_matrix_def
        n_features_def)
  show ?thesis
    using a b c
      cosine_similarity_zero_norm [of "[0, 0]" "[1, 0]" "[[0, 0]]" ex_matrix
        latin_lcut "Inr []" "[]" ex_tfidf ex_matrix]
    by blast
qed

subsection \<open>Ranking\<close>

lemma recommend_courses_returns:
  assumes sorter: "sorts_descending argsort"
    and wf: "df_wf catalog"
    and voc: "vocabulary tfidf \<noteq> []"
    and ne: "M \<noteq> []"
    and feat: "n_features M = length (vocabulary tfidf)"
    and aligned: "length M = nrows catalog"
    and cn: "df_get catalog (str ''course_name'') = Inr cn"
    and tn: "df_get catalog (str ''teacher_name'') = Inr tn"
    and rs: "df_get catalog (str ''avg_rating'') = Inr (NumCol rs)"
  shows "\<exists>cleaned sims.
           clean_text lcut (Inr lines) keywords = Inr cleaned \<and>
           sims = map (\<lambda>y. cosine_row (tfidf_row tfidf cleaned) y) M \<and>
           query_similarity lcut (Inr lines) keywords tfidf M = Inr sims \<and>
           length (composite_scores ws wr sims rs) = nrows catalog \<and>
           recommend_courses argsort lcut (Inr lines) keywords catalog tfidf M top_n ws wr =
             Inr (ranking_rows
                    (take (head_count top_n (nrows catalog))
                       (argsort (composite_scores ws wr sims rs)))
                    cn tn (composite_scores ws wr sims rs))"
proof -
  obtain cleaned where c: "clean_text lcut (Inr lines) keywords = Inr cleaned"
    by (simp add: clean_text_returns)
  define sims where "sims = map (\<lambda>y. cosine_row (tfidf_row tfidf cleaned) y) M"
  have q: "query_similarity lcut (Inr lines) keywords tfidf M = Inr sims"
    unfolding sims_def using c voc ne feat by (rule query_similarity_eq)
  have len: "length rs = nrows catalog"
    using df_wf_col_len [OF wf rs] by simp
  have ls: "length sims = nrows catalog"
    using aligned by (simp add: sims_def)
  have "recommend_courses argsort lcut (Inr lines) keywords catalog tfidf M top_n ws wr =
      Inr (ranking_rows
             (take (head_count top_n (nrows catalog)) (argsort (composite_scores ws wr sims rs)))
             cn tn (composite_scores ws wr sims rs))"
    using sorter q ls cn tn rs len by (rule recommend_courses_eq)
  moreover have "length (composite_scores ws wr sims rs) = nrows catalog"
    using ls len by (simp add: length_composite_scores)
  ultimately show ?thesis
    using c q sims_def by blast
qed

subsection \<open>The example catalog\<close>

lemma ex_catalog_wf: "df_wf ex_catalog"
  by (simp add: df_wf_def ex_catalog_def nrows_def str_def)

lemma ex_catalog_nrows: "nrows ex_catalog = 2"
  by (simp add: ex_catalog_def nrows_def)

lemma ex_catalog_course_name:
  "df_get ex_catalog (str ''course_name'') = Inr (StrCol [Some (str ''calc''), Some (str ''chem'')])"
  by (simp add: df_get_def ex_catalog_def)

lemma ex_catalog_teacher_name:
  "df_get ex_catalog (str ''teacher_name'') = Inr (StrCol [Some (str ''lee''), Some (str ''shah'')])"
  by (simp add: df_get_def ex_catalog_def)

lemma ex_catalog_avg_rating:
  "df_get ex_catalog (str ''avg_rating'') = Inr (NumCol [Some (9 / 2), Some 3])"
  by (simp add: df_get_def ex_catalog_def str_def)

lemma ex_shapes:
  "vocabulary ex_tfidf \<noteq> []" "ex_matrix \<noteq> []"
  "n_features ex_matrix = length (vocabulary ex_tfidf)" "length ex_matrix = nrows ex_catalog"
  by (simp_all add: ex_tfidf_def ex_matrix_def n_features_def ex_catalog_nrows)

lemma ex_clean_text: "clean_text latin_lcut (Inr []) (str ''clear'') = Inr (str ''clear'')"
  by (simp add: clean_text_def text_defs)

lemma ex_tfidf_row: "tfidf_row ex_tfidf (str ''clear'') = [1, 0]"
  by (simp add: tfidf_row_def ex_tfidf_def word_analyzer_def normalize_l2_def l2_norm_def
      text_defs)

lemma ex_cosine_rows: "cosine_row [1, 0] [1, 0] = 1" "cosine_row [1, 0] [0, 1] = 0"
  by (simp_all add: cosine_row_def normalize_l2_def l2_norm_def dot_def)

lemma ex_query_similarity:
  "query_similarity latin_lcut (Inr []) (str ''clear'') ex_tfidf ex_matrix = Inr [1, 0]"
proof -
  have "query_similarity latin_lcut (Inr []) (str ''clear'') ex_tfidf ex_matrix =
      Inr (map (\<lambda>y. cosine_row (tfidf_row ex_tfidf (str ''clear'')) y) ex_matrix)"
    using ex_clean_text ex_shapes(1-3) by (rule query_similarity_eq)
  then show ?thesis
    by (simp add: ex_tfidf_row ex_matrix_def ex_cosine_rows)
qed

lemma ex_composite_scores:
  "composite_scores (7 / 10) (3 / 10) [1, 0] [Some (9 / 2), Some 3] = [41 / 20, 9 / 10]"
  by (simp add: composite_scores_def rating_or_zero_def)

lemma ex_stable_argsort: "stable_argsort [41 / 20, 9 / 10] = [0, 1]"
  by (simp add: stable_argsort_def upt_conv_Cons)

lemma ex_recommend_courses:
  "recommend_courses stable_argsort latin_lcut (Inr []) (str ''clear'') ex_catalog ex_tfidf
     ex_matrix top_n (7 / 10) (3 / 10) =
   Inr (ranking_rows (take (head_count top_n 2) [0, 1])
          (StrCol [Some (str ''calc''), Some (str ''chem'')])
          (StrCol [Some (str ''lee''), Some (str ''shah'')]) [41 / 20, 9 / 10])"
proof -
  have "recommend_courses stable_argsort latin_lcut (Inr []) (str ''clear'') ex_catalog ex_tfidf
     ex_matrix top_n (7 / 10) (3 / 10) =
    Inr (ranking_rows
           (take (head_count top_n (nrows ex_catalog))
              (stable_argsort (composite_scores (7 / 10) (3 / 10) [1, 0] [Some (9 / 2), Some 3])))
           (StrCol [Some (str ''calc''), Some (str ''chem'')])
           (StrCol [Some (str ''lee''), Some (str ''shah'')])
           (composite_scores (7 / 10) (3 / 10) [1, 0] [Some (9 / 2), Some 3]))"
    using sorts_descending_stable_argsort ex_query_similarity _ ex_catalog_course_name
      ex_catalog_teacher_name ex_catalog_avg_rating
    by (rule recommend_courses_eq) (simp_all add: ex_catalog_nrows)
  then show ?thesis
    by (simp only: ex_composite_scores ex_stable_argsort ex_catalog_nrows)
qed

text \<open>
  C3, as stated: for every catalog the ranking has \<open>min (top_n, rows)\<close> rows. For the
  catalog without rows, and its matrix without rows, the call returns no ranking:
  the similarity of the query and an empty matrix is a \<^verbatim>\<open>ValueError\<close>.
\<close>

theorem recommend_courses_empty_catalog:
  "recommend_courses stable_argsort latin_lcut (Inr []) (str ''clear'') ex_empty_catalog
     ex_tfidf [] 5 (7 / 10) (3 / 10) = Inl ValueError"
  by (simp add: recommend_courses_def query_similarity_def clean_text_returns
      transform_single ex_tfidf_def cosine_similarity_def)

text \<open>
  C3, amended: for every catalog that has rows, with its matrix aligned to it row by
  row, and every positive \<open>top_n\<close>, the call returns the first \<open>min (top_n, rows)\<close>
  positions of the sort of the composite scores of all catalog rows, a permutation of
  the rows that puts these scores in descending order: the ranking has exactly
  \<open>min (top_n, rows)\<close> rows, at least one, each with the names and the score of its
  catalog row, and its scores are in descending order.
\<close>

theorem recommend_courses_length_sorted:
  assumes "sorts_descending argsort"
    and "df_wf catalog"
    and "vocabulary tfidf \<noteq> []"
    and "M \<noteq> []"
    and "n_features M = length (vocabulary tfidf)"
    and "length M = nrows catalog"
    and "df_get catalog (str ''course_name'') = Inr cn"
    and "df_get catalog (str ''teacher_name'') = Inr tn"
    and "df_get catalog (str ''avg_rating'') = Inr (NumCol rs)"
    and "0 < top_n"
  shows "\<exists>sims ks order.
           query_similarity lcut (Inr lines) keywords tfidf M = Inr sims \<and>
           ks = composite_scores ws wr sims rs \<and>
           length ks = nrows catalog \<and>
           mset (argsort ks) = mset [0..<nrows catalog] \<and>
           sorted_wrt (\<lambda>a b. a \<ge> b) (map (\<lambda>i. ks ! i) (argsort ks)) \<and>
           order = take (min (nat top_n) (nrows catalog)) (argsort ks) \<and>
           recommend_courses argsort lcut (Inr lines) keywords catalog tfidf M top_n ws wr =
             Inr (ranking_rows order cn tn ks) \<and>
           nrows (ranking_rows order cn tn ks) = min (nat top_n) (nrows catalog) \<and>
           0 < nrows (ranking_rows order cn tn ks) \<and>
           sorted_wrt (\<lambda>a b. a \<ge> b) (map (\<lambda>i. ks ! i) order)"
proof -
  obtain cleaned sims where
    q: "query_similarity lcut (Inr lines) keywords tfidf M = Inr sims" and
    len: "length (composite_scores ws wr sims rs) = nrows catalog" and
    eq: "recommend_courses argsort lcut (Inr lines) keywords catalog tfidf M top_n ws wr =
             Inr (ranking_rows
                    (take (head_count top_n (nrows catalog))
                       (argsort (composite_scores ws wr sims rs)))
                    cn tn (composite_scores ws wr sims rs))"
    using recommend_courses_returns [OF assms(1-9), of lcut lines "keywords" ws wr top_n]
    by (elim exE conjE)
  define ks where "ks = composite_scores ws wr sims rs"
  define order where "order = take (min (nat top_n) (nrows catalog)) (argsort ks)"
  have lk: "length ks = nrows catalog"
    using len by (simp add: ks_def)
  have ms: "mset (argsort ks) = mset [0..<nrows catalog]"
    using assms(1) lk by (simp add: sorts_descending_def)
  have la: "length (argsort ks) = nrows catalog"
    using sorts_descending_length [OF assms(1), of ks] lk by simp
  have "sorted_wrt (\<lambda>i j. ks ! i \<ge> ks ! j) (argsort ks)"
    using assms(1) by (rule sorts_descending_sorted)
  then have sa: "sorted_wrt (\<lambda>a b. a \<ge> b) (map (\<lambda>i. ks ! i) (argsort ks))"
    by (simp add: sorted_wrt_map)
  have "sorted_wrt (\<lambda>i j. ks ! i \<ge> ks ! j) order"
    unfolding order_def by (intro sorted_wrt_take sorts_descending_sorted assms(1))
  then have so: "sorted_wrt (\<lambda>a b. a \<ge> b) (map (\<lambda>i. ks ! i) order)"
    by (simp add: sorted_wrt_map)
  have hc: "head_count top_n (nrows catalog) = min (nat top_n) (nrows catalog)"
    using assms(10) by (simp add: head_count_def)
  have eq': "recommend_courses argsort lcut (Inr lines) keywords catalog tfidf M top_n ws wr =
      Inr (ranking_rows order cn tn ks)"
    using eq by (simp add: ks_def order_def hc)
  have n: "nrows (ranking_rows order cn tn ks) = min (nat top_n) (nrows catalog)"
    using la by (simp add: nrows_ranking_rows order_def)
  have pos: "0 < nrows catalog"
    using assms(4,6) by (metis length_greater_0_conv)
  have "0 < min (nat top_n) (nrows catalog)"
    using assms(10) pos by simp
  with n have p: "0 < nrows (ranking_rows order cn tn ks)"
    by simp
  show ?thesis
    using q ks_def lk ms sa order_def eq' n p so by (intro exI conjI)
qed

theorem recommend_courses_length_sorted_witness:
  "sorts_descending stable_argsort \<and> df_wf ex_catalog \<and> vocabulary ex_tfidf \<noteq> [] \<and>
   ex_matrix \<noteq> [] \<and> n_features ex_matrix = length (vocabulary ex_tfidf) \<and>
   length ex_matrix = nrows ex_catalog \<and> (0 :: int) < 5 \<and>
   recommend_courses stable_argsort latin_lcut (Inr []) (str ''clear'') ex_catalog ex_tfidf
     ex_matrix 5 (7 / 10) (3 / 10) =
     Inr (ranking_rows [0, 1] (StrCol [Some (str ''calc''), Some (str ''chem'')])
            (StrCol [Some (str ''lee''), Some (str ''shah'')]) [41 / 20, 9 / 10]) \<and>
   nrows (ranking_rows [0, 1] (StrCol [Some (str ''calc''), Some (str ''chem'')])
            (StrCol [Some (str ''lee''), Some (str ''shah'')]) [41 / 20, 9 / 10]) =
     min (nat 5) (nrows ex_catalog) \<and>
   sorted_wrt (\<lambda>a b. a \<ge> b) (map (\<lambda>i. [41 / 20, 9 / 10 :: real] ! i) [0, 1])"
proof -
  have pos: "(0 :: int) < 5"
    by simp
  obtain sims ks order where
    q: "query_similarity latin_lcut (Inr []) (str ''clear'') ex_tfidf ex_matrix = Inr sims" and
    ks: "ks = composite_scores (7 / 10) (3 / 10) sims [Some (9 / 2), Some 3]" and
    order: "order = take (min (nat 5) (nrows ex_catalog)) (stable_argsort ks)" and
    eq: "recommend_courses stable_argsort latin_lcut (Inr []) (str ''clear'') ex_catalog
        ex_tfidf ex_matrix 5 (7 / 10) (3 / 10) =
        Inr (ranking_rows order (StrCol [Some (str ''calc''), Some (str ''chem'')])
               (StrCol [Some (str ''lee''), Some (str ''shah'')]) ks)" and
    n: "nrows (ranking_rows order (StrCol [Some (str ''calc''), Some (str ''chem'')])
               (StrCol [Some (str ''lee''), Some (str ''shah'')]) ks) =
        min (nat 5) (nrows ex_catalog)" and
    so: "sorted_wrt (\<lambda>a b. a \<ge> b) (map (\<lambda>i. ks ! i) order)"
    using recommend_courses_length_sorted [OF sorts_descending_stable_argsort ex_catalog_wf
        ex_shapes ex_catalog_course_name ex_catalog_teacher_name ex_catalog_avg_rating pos,
        of latin_lcut "[]" "str ''clear''" "7 / 10" "3 / 10"]
    by (elim exE conjE)
  have s: "sims = [1, 0]"
    using q by (simp add: ex_query_similarity)
  have k: "ks = [41 / 20, 9 / 10]"
    unfolding ks s by (rule ex_composite_scores)
  have o: "order = [0, 1]"
    unfolding order k by (simp add: ex_stable_argsort ex_catalog_nrows)
  show ?thesis
    using sorts_descending_stable_argsort ex_catalog_wf ex_shapes pos eq n so
    unfolding k o by (intro conjI)
qed

subsection \<open>Configuration\<close>

text \<open>
  C7, as stated: a call with \<open>top_n \<le> 0\<close> is rejected before scoring. It is not:
  no parameter is checked. With \<open>top_n = -1\<close> the two-course catalog is scored and
  ranked, and the ranking without its last row is returned.
\<close>

theorem recommend_courses_negative_top_n:
  "recommend_courses stable_argsort latin_lcut (Inr []) (str ''clear'') ex_catalog ex_tfidf
     ex_matrix (- 1) (7 / 10) (3 / 10) =
   Inr [(str ''course_name'', StrCol [Some (str ''calc'')]),
        (str ''teacher_name'', StrCol [Some (str ''lee'')]),
        (str ''composite_score'', NumCol [Some (41 / 20)])]"
  by (simp add: ex_recommend_courses head_count_def ranking_rows_def)

lemma ex_stable_argsort_other: "stable_argsort [41 / 2, 15] = [0, 1]"
  by (simp add: stable_argsort_def upt_conv_Cons)

text \<open>
  C7, amended: the scoring call validates neither \<open>top_n\<close> nor the weights. For
  every \<open>top_n \<le> 0\<close> and all weights, a call on a catalog with rows and an aligned
  matrix is scored and returns normally: the rows are sorted by their composite
  scores as for a positive \<open>top_n\<close>, and the result is this ranking without its last
  \<open>-top_n\<close> rows, or no row for \<open>top_n = 0\<close>.
\<close>

theorem recommend_courses_no_validation:
  assumes "sorts_descending argsort"
    and "df_wf catalog"
    and "vocabulary tfidf \<noteq> []"
    and "M \<noteq> []"
    and "n_features M = length (vocabulary tfidf)"
    and "length M = nrows catalog"
    and "df_get catalog (str ''course_name'') = Inr cn"
    and "df_get catalog (str ''teacher_name'') = Inr tn"
    and "df_get catalog (str ''avg_rating'') = Inr (NumCol rs)"
    and "top_n \<le> 0"
  shows "\<exists>sims ks order.
           query_similarity lcut (Inr lines) keywords tfidf M = Inr sims \<and>
           ks = composite_scores ws wr sims rs \<and>
           length (argsort ks) = nrows catalog \<and>
           mset (argsort ks) = mset [0..<nrows catalog] \<and>
           sorted_wrt (\<lambda>a b. a \<ge> b) (map (\<lambda>i. ks ! i) (argsort ks)) \<and>
           order = take (if top_n = 0 then 0 else nrows catalog - nat (- top_n)) (argsort ks) \<and>
           recommend_courses argsort lcut (Inr lines) keywords catalog tfidf M top_n ws wr =
             Inr (ranking_rows order cn tn ks) \<and>
           nrows (ranking_rows order cn tn ks) =
             (if top_n = 0 then 0 else nrows catalog - nat (- top_n))"
proof -
  obtain cleaned sims where
    q: "query_similarity lcut (Inr lines) keywords tfidf M = Inr sims" and
    len: "length (composite_scores ws wr sims rs) = nrows catalog" and
    eq: "recommend_courses argsort lcut (Inr lines) keywords catalog tfidf M top_n ws wr =
             Inr (ranking_rows
                    (take (head_count top_n (nrows catalog))
                       (argsort (composite_scores ws wr sims rs)))
                    cn tn (composite_scores ws wr sims rs))"
    using recommend_courses_returns [OF assms(1-9), of lcut lines "keywords" ws wr top_n]
    by (elim exE conjE)
  define ks where "ks = composite_scores ws wr sims rs"
  define order where
    "order = take (if top_n = 0 then 0 else nrows catalog - nat (- top_n)) (argsort ks)"
  have la: "length (argsort ks) = nrows catalog"
    using sorts_descending_length [OF assms(1), of ks] len by (simp add: ks_def)
  have ms: "mset (argsort ks) = mset [0..<nrows catalog]"
    using assms(1) len by (simp add: sorts_descending_def ks_def)
  have "sorted_wrt (\<lambda>i j. ks ! i \<ge> ks ! j) (argsort ks)"
    using assms(1) by (rule sorts_descending_sorted)
  then have sa: "sorted_wrt (\<lambda>a b. a \<ge> b) (map (\<lambda>i. ks ! i) (argsort ks))"
    by (simp add: sorted_wrt_map)
  have hc: "head_count top_n (nrows catalog) =
      (if top_n = 0 then 0 else nrows catalog - nat (- top_n))"
    using assms(10) by (simp add: head_count_def)
  have eq': "recommend_courses argsort lcut (Inr lines) keywords catalog tfidf M top_n ws wr =
      Inr (ranking_rows order cn tn ks)"
    using eq by (simp only: ks_def order_def hc)
  have n: "nrows (ranking_rows order cn tn ks) =
      (if top_n = 0 then 0 else nrows catalog - nat (- top_n))"
    using la by (simp add: nrows_ranking_rows order_def)
  show ?thesis
    using q ks_def la ms sa order_def eq' n by (intro exI conjI)
qed

theorem recommend_courses_no_validation_witness:
  "sorts_descending stable_argsort \<and> df_wf ex_catalog \<and> vocabulary ex_tfidf \<noteq> [] \<and>
   ex_matrix \<noteq> [] \<and> n_features ex_matrix = length (vocabulary ex_tfidf) \<and>
   length ex_matrix = nrows ex_catalog \<and> (- 1 :: int) \<le> 0 \<and>
   recommend_courses stable_argsort latin_lcut (Inr []) (str ''clear'') ex_catalog ex_tfidf
     ex_matrix (- 1) (- 2) 5 =
     Inr (ranking_rows [0] (StrCol [Some (str ''calc''), Some (str ''chem'')])
            (StrCol [Some (str ''lee''), Some (str ''shah'')]) [41 / 2, 15]) \<and>
   nrows (ranking_rows [0] (StrCol [Some (str ''calc''), Some (str ''chem'')])
            (StrCol [Some (str ''lee''), Some (str ''shah'')]) [41 / 2, 15]) = 1"
proof -
  have neg: "(- 1 :: int) \<le> 0"
    by simp
  obtain sims ks order where
    q: "query_similarity latin_lcut (Inr []) (str ''clear'') ex_tfidf ex_matrix = Inr sims" and
    ks: "ks = composite_scores (- 2) 5 sims [Some (9 / 2), Some 3]" and
    order: "order = take (if (- 1 :: int) = 0 then 0 else nrows ex_catalog - nat (- (- 1)))
        (stable_argsort ks)" and
    eq: "recommend_courses stable_argsort latin_lcut (Inr []) (str ''clear'') ex_catalog
        ex_tfidf ex_matrix (- 1) (- 2) 5 =
        Inr (ranking_rows order (StrCol [Some (str ''calc''), Some (str ''chem'')])
               (StrCol [Some (str ''lee''), Some (str ''shah'')]) ks)" and
    n: "nrows (ranking_rows order (StrCol [Some (str ''calc''), Some (str ''chem'')])
               (StrCol [Some (str ''lee''), Some (str ''shah'')]) ks) =
        (if (- 1 :: int) = 0 then 0 else nrows ex_catalog - nat (- (- 1)))"
    using recommend_courses_no_validation [OF sorts_descending_stable_argsort ex_catalog_wf
        ex_shapes ex_catalog_course_name ex_catalog_teacher_name ex_catalog_avg_rating neg,
        of latin_lcut "[]" "str ''clear''" "- 2" "5"]
    by (elim exE conjE)
  have s: "sims = [1, 0]"
    using q by (simp add: ex_query_similarity)
  have k: "ks = [41 / 2, 15]"
    unfolding ks s by (simp add: composite_scores_def rating_or_zero_def)
  have o: "order = [0]"
    unfolding order k by (simp add: ex_stable_argsort_other ex_catalog_nrows)
  have n': "nrows (ranking_rows [0] (StrCol [Some (str ''calc''), Some (str ''chem'')])
            (StrCol [Some (str ''lee''), Some (str ''shah'')]) [41 / 2, 15]) = 1"
    using n unfolding k o by (simp add: ex_catalog_nrows)
  show ?thesis
    using sorts_descending_stable_argsort ex_catalog_wf ex_shapes neg eq n'
    unfolding k o by (intro conjI)
qed

subsection \<open>The composite score\<close>

lemma tfidf_row_nonneg:
  assumes "\<forall>(t, w) \<in> set (vocabulary tfidf). 0 \<le> w"
  shows "\<forall>a \<in> set (tfidf_row tfidf doc). 0 \<le> a"
proof -
  have "\<forall>a \<in> set (map (\<lambda>(t, w). real (count_list (analyzer tfidf doc) t) * w)
      (vocabulary tfidf)). 0 \<le> a"
    using assms by auto
  then show ?thesis
    unfolding tfidf_row_def Let_def by (rule normalize_l2_nonneg)
qed

lemma cosine_row_le_one: "cosine_row x y \<le> 1"
  using cosine_row_abs_le [of x y] by simp

lemma composite_scores_nth:
  "length sims = length rs \<Longrightarrow> i < length rs \<Longrightarrow>
   composite_scores ws wr sims rs ! i = ws * sims ! i + wr * rating_or_zero (rs ! i)"
  by (simp add: composite_scores_def)

lemma composite_bounds:
  fixes ws wr s r R :: real
  assumes "0 \<le> ws" "0 \<le> wr" "0 \<le> s" "s \<le> 1" "0 \<le> r" "r \<le> R"
  shows "0 \<le> ws * s + wr * r \<and> ws * s + wr * r \<le> ws + wr * R"
proof -
  have "ws * s \<le> ws * 1"
    using assms by (intro mult_left_mono) simp_all
  moreover have "wr * r \<le> wr * R"
    using assms by (intro mult_left_mono) simp_all
  moreover have "0 \<le> ws * s" "0 \<le> wr * r"
    using assms by simp_all
  ultimately show ?thesis
    by simp
qed

text \<open>
  C1, as stated: the rating enters the composite score normalized to its scale, so
  that with the default weights the score lies in \<open>[0, 1]\<close>. It enters as it is: the
  course rated 4.5 whose review matches the query gets
  \<open>0.7 * 1 + 0.3 * 4.5 = 2.05\<close>.
\<close>

theorem composite_score_exceeds_one:
  "recommend_courses stable_argsort latin_lcut (Inr []) (str ''clear'') ex_catalog ex_tfidf
     ex_matrix 5 (7 / 10) (3 / 10) =
   Inr [(str ''course_name'', StrCol [Some (str ''calc''), Some (str ''chem'')]),
        (str ''teacher_name'', StrCol [Some (str ''lee''), Some (str ''shah'')]),
        (str ''composite_score'', NumCol [Some (41 / 20), Some (9 / 10)])] \<and>
   (1 :: real) < 41 / 20"
  by (simp add: ex_recommend_courses head_count_def ranking_rows_def)

text \<open>
  C1, amended: for every row of a catalog with rows and an aligned matrix, the
  composite score returned by \<^verbatim>\<open>recommend_courses\<close> is
  \<open>w_sim * similarity + w_rating * avg_rating\<close>, where \<open>avg_rating\<close> is the rating of
  the row as stored, 0 if missing, and is not normalized. With non-negative weights,
  non-negative vectors and ratings in \<open>[0, R]\<close> the score lies in
  \<open>[0, w_sim + w_rating * R]\<close>. The rows of the result are rows of the catalog, each
  at most once.
\<close>

theorem composite_score_formula:
  assumes "sorts_descending argsort"
    and "df_wf catalog"
    and "vocabulary tfidf \<noteq> []"
    and "M \<noteq> []"
    and "n_features M = length (vocabulary tfidf)"
    and "length M = nrows catalog"
    and "df_get catalog (str ''course_name'') = Inr cn"
    and "df_get catalog (str ''teacher_name'') = Inr tn"
    and "df_get catalog (str ''avg_rating'') = Inr (NumCol rs)"
  shows "\<exists>sims order.
           query_similarity lcut (Inr lines) keywords tfidf M = Inr sims \<and>
           length sims = nrows catalog \<and> length rs = nrows catalog \<and>
           distinct order \<and> set order \<subseteq> {..<nrows catalog} \<and>
           recommend_courses argsort lcut (Inr lines) keywords catalog tfidf M top_n ws wr =
             Inr (ranking_rows order cn tn (composite_scores ws wr sims rs)) \<and>
           (\<forall>i<nrows catalog.
              composite_scores ws wr sims rs ! i =
                ws * sims ! i + wr * rating_or_zero (rs ! i)) \<and>
           (0 \<le> ws \<and> 0 \<le> wr \<and>
            (\<forall>(t, w) \<in> set (vocabulary tfidf). 0 \<le> w) \<and>
            (\<forall>row \<in> set M. \<forall>a \<in> set row. 0 \<le> a) \<and>
            (\<forall>r \<in> set rs. 0 \<le> rating_or_zero r \<and> rating_or_zero r \<le> R) \<longrightarrow>
            (\<forall>i<nrows catalog.
               0 \<le> composite_scores ws wr sims rs ! i \<and>
               composite_scores ws wr sims rs ! i \<le> ws + wr * R))"
proof -
  obtain cleaned sims where
    sims: "sims = map (\<lambda>y. cosine_row (tfidf_row tfidf cleaned) y) M" and
    q: "query_similarity lcut (Inr lines) keywords tfidf M = Inr sims" and
    len: "length (composite_scores ws wr sims rs) = nrows catalog" and
    eq: "recommend_courses argsort lcut (Inr lines) keywords catalog tfidf M top_n ws wr =
             Inr (ranking_rows
                    (take (head_count top_n (nrows catalog))
                       (argsort (composite_scores ws wr sims rs)))
                    cn tn (composite_scores ws wr sims rs))"
    using recommend_courses_returns [OF assms(1-9), of lcut lines "keywords" ws wr top_n]
    by (elim exE conjE)
  define ks where "ks = composite_scores ws wr sims rs"
  define order where "order = take (head_count top_n (nrows catalog)) (argsort ks)"
  have ls: "length sims = nrows catalog"
    using assms(6) by (simp add: sims)
  have lr: "length rs = nrows catalog"
    using df_wf_col_len [OF assms(2,9)] by simp
  have d: "distinct order"
    unfolding order_def by (intro distinct_take sorts_descending_distinct assms(1))
  have "set order \<subseteq> set (argsort ks)"
    unfolding order_def by (rule set_take_subset)
  then have sub: "set order \<subseteq> {..<nrows catalog}"
    using sorts_descending_set [OF assms(1), of ks] len by (simp add: ks_def)
  have eq': "recommend_courses argsort lcut (Inr lines) keywords catalog tfidf M top_n ws wr =
      Inr (ranking_rows order cn tn (composite_scores ws wr sims rs))"
    using eq by (simp add: ks_def order_def)
  have formula: "\<forall>i<nrows catalog.
      composite_scores ws wr sims rs ! i = ws * sims ! i + wr * rating_or_zero (rs ! i)"
    using ls lr by (simp add: composite_scores_nth)
  have bounds: "\<forall>i<nrows catalog.
      0 \<le> composite_scores ws wr sims rs ! i \<and> composite_scores ws wr sims rs ! i \<le> ws + wr * R"
    if pre: "0 \<le> ws \<and> 0 \<le> wr \<and>
            (\<forall>(t, w) \<in> set (vocabulary tfidf). 0 \<le> w) \<and>
            (\<forall>row \<in> set M. \<forall>a \<in> set row. 0 \<le> a) \<and>
            (\<forall>r \<in> set rs. 0 \<le> rating_or_zero r \<and> rating_or_zero r \<le> R)"
  proof (intro allI impI)
    fix i
    assume i: "i < nrows catalog"
    have qn: "\<forall>a \<in> set (tfidf_row tfidf cleaned). 0 \<le> a"
      using pre by (intro tfidf_row_nonneg) simp
    have "M ! i \<in> set M"
      using i assms(6) by simp
    then have mn: "\<forall>a \<in> set (M ! i). 0 \<le> a"
      using pre by blast
    have si: "sims ! i = cosine_row (tfidf_row tfidf cleaned) (M ! i)"
      using i assms(6) by (simp add: sims)
    have s0: "0 \<le> sims ! i"
      unfolding si using qn mn by (rule cosine_row_nonneg)
    have s1: "sims ! i \<le> 1"
      unfolding si by (rule cosine_row_le_one)
    have "rs ! i \<in> set rs"
      using i lr by simp
    then have r: "0 \<le> rating_or_zero (rs ! i)" "rating_or_zero (rs ! i) \<le> R"
      using pre by blast+
    have "0 \<le> ws * sims ! i + wr * rating_or_zero (rs ! i) \<and>
        ws * sims ! i + wr * rating_or_zero (rs ! i) \<le> ws + wr * R"
      using pre s0 s1 r by (intro composite_bounds) simp_all
    then show "0 \<le> composite_scores ws wr sims rs ! i \<and>
        composite_scores ws wr sims rs ! i \<le> ws + wr * R"
      using formula i by simp
  qed
  show ?thesis
  proof (intro exI conjI impI)
    show "query_similarity lcut (Inr lines) keywords tfidf M = Inr sims"
      by (rule q)
    show "length sims = nrows catalog"
      by (rule ls)
    show "length rs = nrows catalog"
      by (rule lr)
    show "distinct order"
      by (rule d)
    show "set order \<subseteq> {..<nrows catalog}"
      by (rule sub)
    show "recommend_courses argsort lcut (Inr lines) keywords catalog tfidf M top_n ws wr =
        Inr (ranking_rows order cn tn (composite_scores ws wr sims rs))"
      by (rule eq')
    show "\<forall>i<nrows catalog.
        composite_scores ws wr sims rs ! i = ws * sims ! i + wr * rating_or_zero (rs ! i)"
      by (rule formula)
    show "\<forall>i<nrows catalog.
        0 \<le> composite_scores ws wr sims rs ! i \<and>
        composite_scores ws wr sims rs ! i \<le> ws + wr * R"
      if "0 \<le> ws \<and> 0 \<le> wr \<and>
            (\<forall>(t, w) \<in> set (vocabulary tfidf). 0 \<le> w) \<and>
            (\<forall>row \<in> set M. \<forall>a \<in> set row. 0 \<le> a) \<and>
            (\<forall>r \<in> set rs. 0 \<le> rating_or_zero r \<and> rating_or_zero r \<le> R)"
      using that by (rule bounds)
  qed
qed

theorem composite_score_formula_witness:
  "sorts_descending stable_argsort \<and> df_wf ex_catalog \<and> vocabulary ex_tfidf \<noteq> [] \<and>
   ex_matrix \<noteq> [] \<and> n_features ex_matrix = length (vocabulary ex_tfidf) \<and>
   length ex_matrix = nrows ex_catalog \<and>
   (\<exists>sims order.
      query_similarity latin_lcut (Inr []) (str ''clear'') ex_tfidf ex_matrix = Inr sims \<and>
      distinct order \<and> set order \<subseteq> {..<nrows ex_catalog} \<and>
      recommend_courses stable_argsort latin_lcut (Inr []) (str ''clear'') ex_catalog ex_tfidf
        ex_matrix 5 (7 / 10) (3 / 10) =
        Inr (ranking_rows order (StrCol [Some (str ''calc''), Some (str ''chem'')])
               (StrCol [Some (str ''lee''), Some (str ''shah'')])
               (composite_scores (7 / 10) (3 / 10) sims [Some (9 / 2), Some 3])) \<and>
      (\<forall>i<nrows ex_catalog.
         composite_scores (7 / 10) (3 / 10) sims [Some (9 / 2), Some 3] ! i =
           7 / 10 * sims ! i + 3 / 10 * rating_or_zero ([Some (9 / 2), Some 3] ! i)) \<and>
      (\<forall>i<nrows ex_catalog.
         0 \<le> composite_scores (7 / 10) (3 / 10) sims [Some (9 / 2), Some 3] ! i \<and>
         composite_scores (7 / 10) (3 / 10) sims [Some (9 / 2), Some 3] ! i \<le>
           7 / 10 + 3 / 10 * 5))"
proof -
  have pre: "(0 :: real) \<le> 7 / 10 \<and> (0 :: real) \<le> 3 / 10 \<and>
      (\<forall>(t, w) \<in> set (vocabulary ex_tfidf). 0 \<le> w) \<and>
      (\<forall>row \<in> set ex_matrix. \<forall>a \<in> set row. 0 \<le> a) \<and>
      (\<forall>r \<in> set [Some (9 / 2), Some 3]. 0 \<le> rating_or_zero r \<and> rating_or_zero r \<le> 5)"
    by (simp add: ex_tfidf_def ex_matrix_def rating_or_zero_def)
  obtain sims order where
    a: "query_similarity latin_lcut (Inr []) (str ''clear'') ex_tfidf ex_matrix = Inr sims" and
    b: "distinct order" "set order \<subseteq> {..<nrows ex_catalog}" and
    c: "recommend_courses stable_argsort latin_lcut (Inr []) (str ''clear'') ex_catalog ex_tfidf
        ex_matrix 5 (7 / 10) (3 / 10) =
        Inr (ranking_rows order (StrCol [Some (str ''calc''), Some (str ''chem'')])
               (StrCol [Some (str ''lee''), Some (str ''shah'')])
               (composite_scores (7 / 10) (3 / 10) sims [Some (9 / 2), Some 3]))" and
    d: "\<forall>i<nrows ex_catalog.
         composite_scores (7 / 10) (3 / 10) sims [Some (9 / 2), Some 3] ! i =
           7 / 10 * sims ! i + 3 / 10 * rating_or_zero ([Some (9 / 2), Some 3] ! i)" and
    e: "(0 :: real) \<le> 7 / 10 \<and> (0 :: real) \<le> 3 / 10 \<and>
      (\<forall>(t, w) \<in> set (vocabulary ex_tfidf). 0 \<le> w) \<and>
      (\<forall>row \<in> set ex_matrix. \<forall>a \<in> set row. 0 \<le> a) \<and>
      (\<forall>r \<in> set [Some (9 / 2), Some 3]. 0 \<le> rating_or_zero r \<and> rating_or_zero r \<le> 5) \<longrightarrow>
      (\<forall>i<nrows ex_catalog.
         0 \<le> composite_scores (7 / 10) (3 / 10) sims [Some (9 / 2), Some 3] ! i \<and>
         composite_scores (7 / 10) (3 / 10) sims [Some (9 / 2), Some 3] ! i \<le>
           7 / 10 + 3 / 10 * 5)"
    using composite_score_formula [OF sorts_descending_stable_argsort ex_catalog_wf
        ex_shapes ex_catalog_course_name ex_catalog_teacher_name ex_catalog_avg_rating,
        of latin_lcut "[]" "str ''clear''" 5 "7 / 10" "3 / 10" 5]
    by (elim exE conjE)
  have f: "\<forall>i<nrows ex_catalog.
         0 \<le> composite_scores (7 / 10) (3 / 10) sims [Some (9 / 2), Some 3] ! i \<and>
         composite_scores (7 / 10) (3 / 10) sims [Some (9 / 2), Some 3] ! i \<le>
           7 / 10 + 3 / 10 * 5"
    using e pre by (rule mp)
  have "\<exists>sims order.
      query_similarity latin_lcut (Inr []) (str ''clear'') ex_tfidf ex_matrix = Inr sims \<and>
      distinct order \<and> set order \<subseteq> {..<nrows ex_catalog} \<and>
      recommend_courses stable_argsort latin_lcut (Inr []) (str ''clear'') ex_catalog ex_tfidf
        ex_matrix 5 (7 / 10) (3 / 10) =
        Inr (ranking_rows order (StrCol [Some (str ''calc''), Some (str ''chem'')])
               (StrCol [Some (str ''lee''), Some (str ''shah'')])
               (composite_scores (7 / 10) (3 / 10) sims [Some (9 / 2), Some 3])) \<and>
      (\<forall>i<nrows ex_catalog.
         composite_scores (7 / 10) (3 / 10) sims [Some (9 / 2), Some 3] ! i =
           7 / 10 * sims ! i + 3 / 10 * rating_or_zero ([Some (9 / 2), Some 3] ! i)) \<and>
      (\<forall>i<nrows ex_catalog.
         0 \<le> composite_scores (7 / 10) (3 / 10) sims [Some (9 / 2), Some 3] ! i \<and>
         composite_scores (7 / 10) (3 / 10) sims [Some (9 / 2), Some 3] ! i \<le>
           7 / 10 + 3 / 10 * 5)"
    using a b c d f by (intro exI conjI)
  then show ?thesis
    using sorts_descending_stable_argsort ex_catalog_wf ex_shapes by (intro conjI)
qed

subsection \<open>Cold start\<close>

lemma substitute_texts:
  "length cs = length ts \<Longrightarrow>
   map2 cat_opt (map (map_option (\<lambda>x. x @ str '' '')) (map Some cs)) (map Some ts) =
   map Some (map2 (\<lambda>c t. c @ str '' '' @ t) cs ts)"
  by (induction cs ts rule: list_induct2) (simp_all add: cat_opt_def)

lemma composite_scores_zero_rating:
  "length sims = n \<Longrightarrow>
   composite_scores ws wr sims (replicate n (Some 0)) = map (\<lambda>s. ws * s + wr * 0) sims"
  by (intro nth_equalityI) (simp_all add: composite_scores_def rating_or_zero_def)

lemma handle_cold_start_strings:
  assumes cn: "df_get df (str ''course_name'') = Inr (StrCol (map Some cs))"
    and tn: "df_get df (str ''teacher_name'') = Inr (StrCol (map Some ts))"
    and len: "length cs = length ts"
    and ne: "cs \<noteq> []"
    and voc: "vocabulary tfidf \<noteq> []"
    and q: "length q = length (vocabulary tfidf)"
    and f: "\<And>x. f (Some x) = Inr (g x)"
  shows "handle_cold_start df tfidf f [q] ws wr =
     (df_put (df_put df substitute_text
                (StrCol (map Some (map2 (\<lambda>c t. c @ str '' '' @ t) cs ts))))
             cleaned_substitute_text
             (StrCol (map Some (map g (map2 (\<lambda>c t. c @ str '' '' @ t) cs ts)))),
      Inr [(str ''course_name'', StrCol (map Some cs)),
           (str ''teacher_name'', StrCol (map Some ts)),
           (str ''similarity'',
              NumCol (map Some (map (\<lambda>d. cosine_row q (tfidf_row tfidf d))
                 (map g (map2 (\<lambda>c t. c @ str '' '' @ t) cs ts))))),
           (str ''avg_rating'', NumCol (replicate (length cs) (Some 0))),
           (str ''composite_score'',
              NumCol (map Some (map (\<lambda>s. ws * s + wr * 0)
                 (map (\<lambda>d. cosine_row q (tfidf_row tfidf d))
                    (map g (map2 (\<lambda>c t. c @ str '' '' @ t) cs ts))))))])"
proof -
  define texts where "texts = map2 (\<lambda>c t. c @ str '' '' @ t) cs ts"
  define sims where "sims = map (\<lambda>d. cosine_row q (tfidf_row tfidf d)) (map g texts)"
  have st: "map2 cat_opt (map (map_option (\<lambda>x. x @ str '' '')) (map Some cs)) (map Some ts) =
      map Some texts"
    unfolding texts_def using len by (rule substitute_texts)
  have "series_apply f (map Some texts) = Inr (map (\<lambda>c. g (the c)) (map Some texts))"
    by (intro series_apply_total) (auto simp: f)
  then have sa: "series_apply f (map Some texts) = Inr (map g texts)"
    by (simp add: comp_def)
  have app: "series_apply f
      (map2 cat_opt (map (map_option (\<lambda>x. x @ str '' '')) (map Some cs)) (map Some ts)) =
      Inr (map g texts)"
    by (simp only: st sa)
  have l: "length (map Some cs) = length (map Some ts)" "map Some cs \<noteq> []"
    using len ne by simp_all
  have ls: "length sims = length cs"
    using len by (simp add: sims_def texts_def)
  have "handle_cold_start df tfidf f [q] ws wr =
     (df_put (df_put df substitute_text (StrCol (map Some texts)))
             cleaned_substitute_text (StrCol (map Some (map g texts))),
      Inr [(str ''course_name'', StrCol (map Some cs)),
           (str ''teacher_name'', StrCol (map Some ts)),
           (str ''similarity'', NumCol (map Some sims)),
           (str ''avg_rating'', NumCol (replicate (length cs) (Some 0))),
           (str ''composite_score'',
              NumCol (map Some (composite_scores ws wr sims (replicate (length cs) (Some 0)))))])"
    using handle_cold_start_eq [OF cn tn l(1) app l(2) voc q, of ws wr]
    by (simp only: st sims_def length_map)
  then show ?thesis
    by (simp only: composite_scores_zero_rating [OF ls]) (simp only: sims_def texts_def)
qed

lemma clean_text_cell_returns:
  "clean_text_cell lcut (Inr lines) (Some x) =
     Inr (join_space (filter (\<lambda>word. word \<notin> set (map strip lines)) (lcut (preprocess x))))"
  by (simp add: clean_text_cell_def py_str_def clean_text_returns)

text \<open>
  C2: for every cold-start entry the substitute text is the course name, a space and
  the teacher name; it is cleaned by \<^verbatim>\<open>clean_text\<close> and vectorized by the
  vectorizer passed to the call, the one the caller uses for the corpus; the rating
  column of the result is 0 in every row and the composite score is
  \<open>w_sim * similarity + w_rating * 0\<close>, whatever rating column the input frame has.
\<close>

theorem handle_cold_start_scores:
  assumes "df_get df (str ''course_name'') = Inr (StrCol (map Some cs))"
    and "df_get df (str ''teacher_name'') = Inr (StrCol (map Some ts))"
    and "length cs = length ts"
    and "cs \<noteq> []"
    and "vocabulary tfidf \<noteq> []"
    and "length q = length (vocabulary tfidf)"
  shows "\<exists>cleaned sims df'.
           length cleaned = length cs \<and>
           (\<forall>i<length cs.
              clean_text lcut (Inr lines) (cs ! i @ str '' '' @ ts ! i) = Inr (cleaned ! i)) \<and>
           sims = map (\<lambda>d. cosine_row q (tfidf_row tfidf d)) cleaned \<and>
           df_get df' substitute_text =
             Inr (StrCol (map Some (map2 (\<lambda>c t. c @ str '' '' @ t) cs ts))) \<and>
           df_get df' cleaned_substitute_text = Inr (StrCol (map Some cleaned)) \<and>
           handle_cold_start df tfidf (clean_text_cell lcut (Inr lines)) [q] ws wr =
             (df',
              Inr [(str ''course_name'', StrCol (map Some cs)),
                   (str ''teacher_name'', StrCol (map Some ts)),
                   (str ''similarity'', NumCol (map Some sims)),
                   (str ''avg_rating'', NumCol (replicate (length cs) (Some 0))),
                   (str ''composite_score'',
                      NumCol (map Some (map (\<lambda>s. ws * s + wr * 0) sims)))])"
proof -
  define g where
    "g = (\<lambda>x. join_space (filter (\<lambda>word. word \<notin> set (map strip lines)) (lcut (preprocess x))))"
  define texts where "texts = map2 (\<lambda>c t. c @ str '' '' @ t) cs ts"
  define cleaned where "cleaned = map g texts"
  define sims where "sims = map (\<lambda>d. cosine_row q (tfidf_row tfidf d)) cleaned"
  define df' where "df' = df_put (df_put df substitute_text (StrCol (map Some texts)))
      cleaned_substitute_text (StrCol (map Some cleaned))"
  have f: "clean_text_cell lcut (Inr lines) (Some x) = Inr (g x)" for x
    by (simp add: clean_text_cell_returns g_def)
  have 1: "length cleaned = length cs"
    using assms(3) by (simp add: cleaned_def texts_def)
  have 2: "\<forall>i<length cs.
      clean_text lcut (Inr lines) (cs ! i @ str '' '' @ ts ! i) = Inr (cleaned ! i)"
    using assms(3) by (simp add: cleaned_def texts_def clean_text_returns g_def)
  have 3: "df_get df' substitute_text = Inr (StrCol (map Some texts))"
    by (simp add: df'_def df_get_df_put)
  have 4: "df_get df' cleaned_substitute_text = Inr (StrCol (map Some cleaned))"
    by (simp add: df'_def df_get_df_put)
  have 5: "handle_cold_start df tfidf (clean_text_cell lcut (Inr lines)) [q] ws wr =
      (df',
       Inr [(str ''course_name'', StrCol (map Some cs)),
            (str ''teacher_name'', StrCol (map Some ts)),
            (str ''similarity'', NumCol (map Some sims)),
            (str ''avg_rating'', NumCol (replicate (length cs) (Some 0))),
            (str ''composite_score'', NumCol (map Some (map (\<lambda>s. ws * s + wr * 0) sims)))])"
    unfolding df'_def sims_def cleaned_def texts_def
    using assms f by (rule handle_cold_start_strings)
  show ?thesis
    using 1 2 3 4 5 sims_def unfolding texts_def by (intro exI conjI)
qed

lemma ex_new_courses_course_name:
  "df_get ex_new_courses (str ''course_name'') = Inr (StrCol (map Some [str ''clear'']))"
  by (simp add: df_get_def ex_new_courses_def)

lemma ex_new_courses_teacher_name:
  "df_get ex_new_courses (str ''teacher_name'') = Inr (StrCol (map Some [str ''lee'']))"
  by (simp add: df_get_def ex_new_courses_def)

lemma ex_clean_substitute:
  "join_space (filter (\<lambda>word. word \<notin> set (map strip []))
     (latin_lcut (preprocess (str ''clear'' @ str '' '' @ str ''lee'')))) = str ''clear   lee''"
  by (simp add: text_defs)

lemma ex_tfidf_row_substitute: "tfidf_row ex_tfidf (str ''clear   lee'') = [1, 0]"
  by (simp add: tfidf_row_def ex_tfidf_def word_analyzer_def normalize_l2_def l2_norm_def
      text_defs)

lemma ex_df_put:
  "df_put (df_put ex_new_courses substitute_text c) cleaned_substitute_text d =
     [(str ''course_name'', StrCol [Some (str ''clear'')]),
      (str ''teacher_name'', StrCol [Some (str ''lee'')]),
      (str ''avg_rating'', NumCol [Some 5]),
      (substitute_text, c), (cleaned_substitute_text, d)]"
  by (simp add: ex_new_courses_def str_def substitute_text_def cleaned_substitute_text_def)

lemma ex_handle_cold_start:
  "handle_cold_start ex_new_courses ex_tfidf (clean_text_cell latin_lcut (Inr [])) [[1, 0]]
     (7 / 10) (3 / 10) =
   ([(str ''course_name'', StrCol [Some (str ''clear'')]),
     (str ''teacher_name'', StrCol [Some (str ''lee'')]),
     (str ''avg_rating'', NumCol [Some 5]),
     (substitute_text, StrCol [Some (str ''clear lee'')]),
     (cleaned_substitute_text, StrCol [Some (str ''clear   lee'')])],
    Inr [(str ''course_name'', StrCol [Some (str ''clear'')]),
         (str ''teacher_name'', StrCol [Some (str ''lee'')]),
         (str ''similarity'', NumCol [Some 1]),
         (str ''avg_rating'', NumCol [Some 0]),
         (str ''composite_score'', NumCol [Some (7 / 10)])])"
proof -
  have v: "vocabulary ex_tfidf \<noteq> []" "length [1, 0 :: real] = length (vocabulary ex_tfidf)"
    by (simp_all add: ex_tfidf_def)
  have l: "length [str ''clear''] = length [str ''lee'']" "[str ''clear''] \<noteq> []"
    by simp_all
  have t: "str ''clear'' @ str '' '' @ str ''lee'' = str ''clear lee''"
    by (simp add: str_def)
  define g where "g = (\<lambda>x. join_space (filter (\<lambda>word. word \<notin> set (map strip []))
      (latin_lcut (preprocess x))))"
  have f: "clean_text_cell latin_lcut (Inr []) (Some x) = Inr (g x)" for x
    unfolding g_def by (rule clean_text_cell_returns)
  have gt: "g (str ''clear'' @ str '' '' @ str ''lee'') = str ''clear   lee''"
    unfolding g_def by (rule ex_clean_substitute)
  show ?thesis
    using handle_cold_start_strings [where f = "clean_text_cell latin_lcut (Inr [])" and g = g
        and ws = "7 / 10" and wr = "3 / 10",
        OF ex_new_courses_course_name ex_new_courses_teacher_name l v f]
    by (simp add: gt ex_tfidf_row_substitute ex_cosine_rows ex_df_put) (simp add: t)
qed

theorem handle_cold_start_scores_witness:
  "[str ''clear''] \<noteq> [] \<and> vocabulary ex_tfidf \<noteq> [] \<and>
   length [1, 0 :: real] = length (vocabulary ex_tfidf) \<and>
   df_get ex_new_courses (str ''avg_rating'') = Inr (NumCol [Some 5]) \<and>
   (\<exists>cleaned sims df'.
      length cleaned = length [str ''clear''] \<and>
      sims = map (\<lambda>d. cosine_row [1, 0] (tfidf_row ex_tfidf d)) cleaned \<and>
      df_get df' cleaned_substitute_text = Inr (StrCol (map Some cleaned)) \<and>
      handle_cold_start ex_new_courses ex_tfidf (clean_text_cell latin_lcut (Inr [])) [[1, 0]]
        (7 / 10) (3 / 10) =
        (df',
         Inr [(str ''course_name'', StrCol (map Some [str ''clear''])),
              (str ''teacher_name'', StrCol (map Some [str ''lee''])),
              (str ''similarity'', NumCol (map Some sims)),
              (str ''avg_rating'', NumCol (replicate (length [str ''clear'']) (Some 0))),
              (str ''composite_score'',
                 NumCol (map Some (map (\<lambda>s. 7 / 10 * s + 3 / 10 * 0) sims)))]))"
proof -
  have v: "vocabulary ex_tfidf \<noteq> []" "length [1, 0 :: real] = length (vocabulary ex_tfidf)"
    by (simp_all add: ex_tfidf_def)
  have l: "length [str ''clear''] = length [str ''lee'']" "[str ''clear''] \<noteq> []"
    by simp_all
  have r: "df_get ex_new_courses (str ''avg_rating'') = Inr (NumCol [Some 5])"
    by (simp add: df_get_def ex_new_courses_def str_def)
  have "\<exists>cleaned sims df'.
      length cleaned = length [str ''clear''] \<and>
      sims = map (\<lambda>d. cosine_row [1, 0] (tfidf_row ex_tfidf d)) cleaned \<and>
      df_get df' cleaned_substitute_text = Inr (StrCol (map Some cleaned)) \<and>
      handle_cold_start ex_new_courses ex_tfidf (clean_text_cell latin_lcut (Inr [])) [[1, 0]]
        (7 / 10) (3 / 10) =
        (df',
         Inr [(str ''course_name'', StrCol (map Some [str ''clear''])),
              (str ''teacher_name'', StrCol (map Some [str ''lee''])),
              (str ''similarity'', NumCol (map Some sims)),
              (str ''avg_rating'', NumCol (replicate (length [str ''clear'']) (Some 0))),
              (str ''composite_score'',
                 NumCol (map Some (map (\<lambda>s. 7 / 10 * s + 3 / 10 * 0) sims)))])"
    using handle_cold_start_scores [OF ex_new_courses_course_name ex_new_courses_teacher_name
        l v, of latin_lcut "[]" "7 / 10" "3 / 10"]
    by blast
  then show ?thesis
    using l(2) v r by (intro conjI)
qed

subsection \<open>Mutation of the caller's frame\<close>

text \<open>
  C5: no scoring call changes the frame it is given. \<^verbatim>\<open>recommend_courses\<close> works on
  a copy; \<^verbatim>\<open>handle_cold_start\<close> assigns two columns to the frame of the caller.
  After the call on the frame of one new course, with the columns
  \<^verbatim>\<open>course_name\<close>, \<^verbatim>\<open>teacher_name\<close> and \<^verbatim>\<open>avg_rating\<close>, the caller's frame has
  five columns.
\<close>

theorem handle_cold_start_mutates_input:
  "columns ex_new_courses = [str ''course_name'', str ''teacher_name'', str ''avg_rating''] \<and>
   fst (handle_cold_start ex_new_courses ex_tfidf (clean_text_cell latin_lcut (Inr []))
          [[1, 0]] (7 / 10) (3 / 10)) =
     [(str ''course_name'', StrCol [Some (str ''clear'')]),
      (str ''teacher_name'', StrCol [Some (str ''lee'')]),
      (str ''avg_rating'', NumCol [Some 5]),
      (substitute_text, StrCol [Some (str ''clear lee'')]),
      (cleaned_substitute_text, StrCol [Some (str ''clear   lee'')])] \<and>
   fst (handle_cold_start ex_new_courses ex_tfidf (clean_text_cell latin_lcut (Inr []))
          [[1, 0]] (7 / 10) (3 / 10)) \<noteq> ex_new_courses"
  by (simp add: ex_handle_cold_start) (simp add: ex_new_courses_def columns_def)

subsection \<open>The fields of a result\<close>

lemma recommend_courses_columns:
  assumes "recommend_courses argsort lcut stopwords_file keywords catalog tfidf M top_n ws wr =
      Inr res"
  shows "columns res = [str ''course_name'', str ''teacher_name'', str ''composite_score'']"
proof -
  from assms obtain t3 selected c where
    sel: "df_select t3 [str ''course_name'', str ''teacher_name'', str ''composite_score''] =
        Inr selected" and
    res: "res = df_head top_n (sort_values_desc argsort c selected)"
    unfolding recommend_courses_def Let_def
    by (auto split: sum.splits simp del: df_select.simps)
  have "columns selected = [str ''course_name'', str ''teacher_name'', str ''composite_score'']"
    using sel by (rule columns_df_select)
  then show ?thesis
    by (simp add: res columns_df_head columns_sort_values_desc)
qed

lemma columns_df_set_scalar:
  "columns (df_set_scalar df n v) =
     (if n \<in> set (columns df) then columns df else columns df @ [n])"
  by (simp add: df_set_scalar_def columns_df_put)

lemma handle_cold_start_columns:
  assumes "handle_cold_start df tfidf f K ws wr = (df', Inr res)"
  shows "columns res = [str ''course_name'', str ''teacher_name'', str ''similarity'',
      str ''avg_rating'', str ''composite_score'']"
proof -
  from assms obtain df2 r0 r1 scores c where
    sel: "df_select df2 [str ''course_name'', str ''teacher_name''] = Inr r0" and
    arr: "df_set_array r0 (str ''similarity'') scores = Inr r1" and
    res: "res = df_put (df_set_scalar r1 (str ''avg_rating'') 0) (str ''composite_score'')
        (NumCol c)"
    unfolding handle_cold_start_def Let_def
    by (auto split: sum.splits simp del: df_select.simps)
  have "columns r0 = [str ''course_name'', str ''teacher_name'']"
    using sel by (rule columns_df_select)
  then have "columns r1 = [str ''course_name'', str ''teacher_name'', str ''similarity'']"
    using columns_df_set_array [OF arr] by simp
  then show ?thesis
    by (simp add: res columns_df_put columns_df_set_scalar)
qed

text \<open>
  C10, as stated: every result row, of the cold-start path too, has exactly the
  fields course name, instructor name and composite score. The frame returned by
  \<^verbatim>\<open>handle_cold_start\<close> also has the columns \<^verbatim>\<open>similarity\<close> and \<^verbatim>\<open>avg_rating\<close>.
\<close>

theorem handle_cold_start_exposes_similarity:
  "snd (handle_cold_start ex_new_courses ex_tfidf (clean_text_cell latin_lcut (Inr []))
          [[1, 0]] (7 / 10) (3 / 10)) =
     Inr [(str ''course_name'', StrCol [Some (str ''clear'')]),
          (str ''teacher_name'', StrCol [Some (str ''lee'')]),
          (str ''similarity'', NumCol [Some 1]),
          (str ''avg_rating'', NumCol [Some 0]),
          (str ''composite_score'', NumCol [Some (7 / 10)])]"
  by (simp add: ex_handle_cold_start)

text \<open>
  C10, amended: every result returned by \<^verbatim>\<open>recommend_courses\<close> has exactly the
  columns course name, instructor name and composite score, in this order; every
  result returned by \<^verbatim>\<open>handle_cold_start\<close> has these and, between them, the columns
  \<^verbatim>\<open>similarity\<close> and \<^verbatim>\<open>avg_rating\<close>.
\<close>

theorem result_columns:
  "(recommend_courses argsort lcut stopwords_file keywords catalog tfidf M top_n ws wr = Inr res
      \<longrightarrow> columns res = [str ''course_name'', str ''teacher_name'', str ''composite_score'']) \<and>
   (handle_cold_start df tfidf' f K ws' wr' = (df', Inr res')
      \<longrightarrow> columns res' = [str ''course_name'', str ''teacher_name'', str ''similarity'',
            str ''avg_rating'', str ''composite_score''])"
  using recommend_courses_columns handle_cold_start_columns by blast

theorem result_columns_witness:
  "recommend_courses stable_argsort latin_lcut (Inr []) (str ''clear'') ex_catalog ex_tfidf
     ex_matrix 5 (7 / 10) (3 / 10) =
     Inr (ranking_rows [0, 1] (StrCol [Some (str ''calc''), Some (str ''chem'')])
            (StrCol [Some (str ''lee''), Some (str ''shah'')]) [41 / 20, 9 / 10]) \<and>
   columns (ranking_rows [0, 1] (StrCol [Some (str ''calc''), Some (str ''chem'')])
            (StrCol [Some (str ''lee''), Some (str ''shah'')]) [41 / 20, 9 / 10]) =
     [str ''course_name'', str ''teacher_name'', str ''composite_score''] \<and>
   handle_cold_start ex_new_courses ex_tfidf (clean_text_cell latin_lcut (Inr [])) [[1, 0]]
     (7 / 10) (3 / 10) =
   ([(str ''course_name'', StrCol [Some (str ''clear'')]),
     (str ''teacher_name'', StrCol [Some (str ''lee'')]),
     (str ''avg_rating'', NumCol [Some 5]),
     (substitute_text, StrCol [Some (str ''clear lee'')]),
     (cleaned_substitute_text, StrCol [Some (str ''clear   lee'')])],
    Inr [(str ''course_name'', StrCol [Some (str ''clear'')]),
         (str ''teacher_name'', StrCol [Some (str ''lee'')]),
         (str ''similarity'', NumCol [Some 1]),
         (str ''avg_rating'', NumCol [Some 0]),
         (str ''composite_score'', NumCol [Some (7 / 10)])]) \<and>
   columns [(str ''course_name'', StrCol [Some (str ''clear'')]),
         (str ''teacher_name'', StrCol [Some (str ''lee'')]),
         (str ''similarity'', NumCol [Some 1]),
         (str ''avg_rating'', NumCol [Some 0]),
         (str ''composite_score'', NumCol [Some (7 / 10)])] =
     [str ''course_name'', str ''teacher_name'', str ''similarity'',
      str ''avg_rating'', str ''composite_score'']"
proof -
  have a: "recommend_courses stable_argsort latin_lcut (Inr []) (str ''clear'') ex_catalog
      ex_tfidf ex_matrix 5 (7 / 10) (3 / 10) =
     Inr (ranking_rows [0, 1] (StrCol [Some (str ''calc''), Some (str ''chem'')])
            (StrCol [Some (str ''lee''), Some (str ''shah'')]) [41 / 20, 9 / 10])"
    by (simp add: ex_recommend_courses head_count_def)
  show ?thesis
    using a ex_handle_cold_start
      result_columns [of stable_argsort latin_lcut "Inr []" "str ''clear''" ex_catalog ex_tfidf
        ex_matrix 5 "7 / 10" "3 / 10" _ ex_new_courses ex_tfidf
        "clean_text_cell latin_lcut (Inr [])" "[[1, 0]]" "7 / 10" "3 / 10"]
    by blast
qed

subsection \<open>Failing resources\<close>

lemma load_resources_cases:
  "(\<exists>e. load_resources joblib_load read_pickle = ([Load_error e], (None, None, None))) \<or>
   (\<exists>t d m. load_resources joblib_load read_pickle =
      ([Load_success], (Some t, Some d, Some m)))"
  by (auto simp: load_resources_def split: sum.splits)

lemma main_load_failed:
  assumes "load_resources joblib_load read_pickle = (events, (None, None, None))"
  shows "main argsort lcut stopwords_file joblib_load read_pickle w s0 =
           (events @ [Init_failed], Inr (init_session_state s0))"
  using assms by (simp add: main_def Let_def)

lemma recommend_courses_stopwords_failed:
  "recommend_courses argsort lcut (Inl e) keywords catalog tfidf M top_n ws wr = Inl e"
  by (simp add: recommend_courses_def query_similarity_def clean_text_def)

lemma recommend_courses_misaligned:
  assumes "query_similarity lcut stopwords_file keywords tfidf M = Inr sims"
    and "0 < nrows catalog"
    and "length sims \<noteq> nrows catalog"
  shows "recommend_courses argsort lcut stopwords_file keywords catalog tfidf M top_n ws wr =
           Inl ValueError"
  using assms by (simp add: recommend_courses_def df_set_array_def)

text \<open>
  C6, as stated: a resource that fails to load raises an exception to the caller.
  When the model file cannot be read, \<^verbatim>\<open>load_resources\<close> returns the triple of
  \<^verbatim>\<open>None\<close>, and \<^verbatim>\<open>main\<close> returns as well: nothing is raised.
\<close>

theorem load_failure_not_raised:
  "load_resources (Inl OSError) (Inr ex_catalog) = ([Load_error OSError], (None, None, None)) \<and>
   main stable_argsort latin_lcut (Inr []) (Inl OSError) (Inr ex_catalog)
     \<lparr>keywords_input = str ''clear'', submit_clicked = True, restart_clicked = False\<rparr> None =
     ([Load_error OSError, Init_failed],
      Inr \<lparr>user_keywords = [], new_courses = [], recommendations = [], current_step = 1\<rparr>)"
  by (simp add: load_resources_def main_def init_session_state_def)

lemma load_resources_failed_step:
  assumes "joblib_load = Inl e \<or>
      (\<exists>t. joblib_load = Inr t \<and>
        (read_pickle = Inl e \<or>
         (\<exists>d. read_pickle = Inr d \<and>
           (df_get d (str ''cleaned_review'') = Inl e \<or>
            (\<exists>reviews. df_get d (str ''cleaned_review'') = Inr reviews \<and>
               transform_column t reviews = Inl e)))))"
  shows "load_resources joblib_load read_pickle = ([Load_error e], (None, None, None))"
  using assms by (auto simp: load_resources_def)

lemma load_resources_loaded:
  assumes "joblib_load = Inr t" "read_pickle = Inr d"
    "df_get d (str ''cleaned_review'') = Inr reviews" "transform_column t reviews = Inr m"
  shows "load_resources joblib_load read_pickle = ([Load_success], (Some t, Some d, Some m))"
  using assms by (simp add: load_resources_def)

lemma ex_transform_column:
  "transform_column ex_tfidf (StrCol [Some (str ''clear''), Some (str ''hard'')]) = Inr ex_matrix"
proof -
  have "tfidf_row ex_tfidf (str ''hard'') = [0, 1]"
    by (simp add: tfidf_row_def ex_tfidf_def word_analyzer_def normalize_l2_def l2_norm_def
        text_defs)
  then show ?thesis
    by (simp add: transform_def ex_tfidf_row ex_matrix_def ex_shapes(1))
qed

text \<open>
  C6, amended: when the model or the catalog cannot be loaded, or the matrix cannot
  be built (the catalog has no column of cleaned reviews, or the vectorizer rejects
  them), \<^verbatim>\<open>load_resources\<close> raises nothing: it catches the exception, reports it
  and returns the triple of \<^verbatim>\<open>None\<close>; when every step succeeds it returns the
  three resources. \<^verbatim>\<open>main\<close>, given the triple of \<^verbatim>\<open>None\<close>, reports the failed
  initialization and returns without scoring, which differs from the report of an
  empty result. A stop word file that cannot be read is raised to the caller of
  \<^verbatim>\<open>recommend_courses\<close>, and so is, as a \<^verbatim>\<open>ValueError\<close>, a matrix whose number of
  rows differs from that of a catalog with rows.
\<close>

theorem load_failure_reported:
  "(joblib_load = Inl e \<or>
      (\<exists>t. joblib_load = Inr t \<and>
        (read_pickle = Inl e \<or>
         (\<exists>d. read_pickle = Inr d \<and>
           (df_get d (str ''cleaned_review'') = Inl e \<or>
            (\<exists>reviews. df_get d (str ''cleaned_review'') = Inr reviews \<and>
               transform_column t reviews = Inl e))))) \<longrightarrow>
      load_resources joblib_load read_pickle = ([Load_error e], (None, None, None))) \<and>
   (joblib_load = Inr t' \<and> read_pickle = Inr d' \<and>
    df_get d' (str ''cleaned_review'') = Inr reviews' \<and> transform_column t' reviews' = Inr m' \<longrightarrow>
      load_resources joblib_load read_pickle =
        ([Load_success], (Some t', Some d', Some m'))) \<and>
   (load_resources joblib_load read_pickle = (events, (None, None, None)) \<longrightarrow>
      main argsort lcut stopwords_file joblib_load read_pickle w s0 =
        (events @ [Init_failed], Inr (init_session_state s0))) \<and>
   recommend_courses argsort lcut (Inl e') keywords catalog tfidf M top_n ws wr = Inl e' \<and>
   (query_similarity lcut stopwords_file keywords tfidf M = Inr sims \<and> 0 < nrows catalog \<and>
    length sims \<noteq> nrows catalog \<longrightarrow>
      recommend_courses argsort lcut stopwords_file keywords catalog tfidf M top_n ws wr =
        Inl ValueError)"
proof (intro conjI impI)
  assume "joblib_load = Inl e \<or>
      (\<exists>t. joblib_load = Inr t \<and>
        (read_pickle = Inl e \<or>
         (\<exists>d. read_pickle = Inr d \<and>
           (df_get d (str ''cleaned_review'') = Inl e \<or>
            (\<exists>reviews. df_get d (str ''cleaned_review'') = Inr reviews \<and>
               transform_column t reviews = Inl e)))))"
  then show "load_resources joblib_load read_pickle = ([Load_error e], (None, None, None))"
    by (rule load_resources_failed_step)
next
  assume "joblib_load = Inr t' \<and> read_pickle = Inr d' \<and>
    df_get d' (str ''cleaned_review'') = Inr reviews' \<and> transform_column t' reviews' = Inr m'"
  then show "load_resources joblib_load read_pickle =
      ([Load_success], (Some t', Some d', Some m'))"
    using load_resources_loaded by blast
next
  assume "load_resources joblib_load read_pickle = (events, (None, None, None))"
  then show "main argsort lcut stopwords_file joblib_load read_pickle w s0 =
        (events @ [Init_failed], Inr (init_session_state s0))"
    by (rule main_load_failed)
next
  show "recommend_courses argsort lcut (Inl e') keywords catalog tfidf M top_n ws wr = Inl e'"
    by (rule recommend_courses_stopwords_failed)
next
  assume "query_similarity lcut stopwords_file keywords tfidf M = Inr sims \<and>
    0 < nrows catalog \<and> length sims \<noteq> nrows catalog"
  then show "recommend_courses argsort lcut stopwords_file keywords catalog tfidf M top_n ws wr =
        Inl ValueError"
    using recommend_courses_misaligned by blast
qed

theorem load_failure_reported_witness:
  "load_resources (Inl OSError) (Inr ex_catalog) = ([Load_error OSError], (None, None, None)) \<and>
   load_resources (Inr ex_tfidf) (Inl OSError) = ([Load_error OSError], (None, None, None)) \<and>
   df_get ex_new_courses (str ''cleaned_review'') = Inl KeyError \<and>
   load_resources (Inr ex_tfidf) (Inr ex_new_courses) =
     ([Load_error KeyError], (None, None, None)) \<and>
   df_get ex_empty_catalog (str ''cleaned_review'') = Inr (StrCol []) \<and>
   transform_column ex_tfidf (StrCol []) = Inl ValueError \<and>
   load_resources (Inr ex_tfidf) (Inr ex_empty_catalog) =
     ([Load_error ValueError], (None, None, None)) \<and>
   load_resources (Inr ex_tfidf) (Inr ex_catalog) =
     ([Load_success], (Some ex_tfidf, Some ex_catalog, Some ex_matrix)) \<and>
   main stable_argsort latin_lcut (Inr []) (Inr ex_tfidf) (Inr ex_new_courses)
     \<lparr>keywords_input = str ''clear'', submit_clicked = True, restart_clicked = False\<rparr> None =
     ([Load_error KeyError] @ [Init_failed], Inr (init_session_state None)) \<and>
   recommend_courses stable_argsort latin_lcut (Inl OSError) (str ''clear'') ex_catalog ex_tfidf
     ex_matrix 5 (7 / 10) (3 / 10) = Inl OSError \<and>
   query_similarity latin_lcut (Inr []) (str ''clear'') ex_tfidf [[1, 0]] = Inr [1] \<and>
   0 < nrows ex_catalog \<and> length [1 :: real] \<noteq> nrows ex_catalog \<and>
   recommend_courses stable_argsort latin_lcut (Inr []) (str ''clear'') ex_catalog ex_tfidf
     [[1, 0]] 5 (7 / 10) (3 / 10) = Inl ValueError"
proof -
  have q: "query_similarity latin_lcut (Inr []) (str ''clear'') ex_tfidf [[1, 0]] = Inr [1]"
  proof -
    have "query_similarity latin_lcut (Inr []) (str ''clear'') ex_tfidf [[1, 0]] =
        Inr (map (\<lambda>y. cosine_row (tfidf_row ex_tfidf (str ''clear'')) y) [[1, 0]])"
      using ex_clean_text ex_shapes(1) by (rule query_similarity_eq)
        (simp_all add: n_features_def ex_tfidf_def)
    then show ?thesis
      by (simp add: ex_tfidf_row ex_cosine_rows)
  qed
  have n: "0 < nrows ex_catalog" "length [1 :: real] \<noteq> nrows ex_catalog"
    by (simp_all add: ex_catalog_nrows)
  have k: "df_get ex_new_courses (str ''cleaned_review'') = Inl KeyError"
    by (simp add: df_get_def ex_new_courses_def str_def)
  have g: "df_get ex_empty_catalog (str ''cleaned_review'') = Inr (StrCol [])"
    by (simp add: df_get_def ex_empty_catalog_def str_def)
  have t: "transform_column ex_tfidf (StrCol []) = Inl ValueError"
    by (simp add: transform_def)
  have r: "df_get ex_catalog (str ''cleaned_review'') =
      Inr (StrCol [Some (str ''clear''), Some (str ''hard'')])"
    by (simp add: df_get_def ex_catalog_def str_def)
  have a: "load_resources (Inl OSError) (Inr ex_catalog) =
      ([Load_error OSError], (None, None, None))"
    using load_failure_reported [of "Inl OSError" OSError "Inr ex_catalog", THEN conjunct1]
    by simp
  have b: "load_resources (Inr ex_tfidf) (Inl OSError) =
      ([Load_error OSError], (None, None, None))"
    using load_failure_reported [of "Inr ex_tfidf" OSError "Inl OSError", THEN conjunct1]
    by simp
  have c1: "load_resources (Inr ex_tfidf) (Inr ex_new_courses) =
      ([Load_error KeyError], (None, None, None))"
    using k load_failure_reported [of "Inr ex_tfidf" KeyError "Inr ex_new_courses",
        THEN conjunct1]
    by simp
  have c2: "load_resources (Inr ex_tfidf) (Inr ex_empty_catalog) =
      ([Load_error ValueError], (None, None, None))"
    using g t load_failure_reported [of "Inr ex_tfidf" ValueError "Inr ex_empty_catalog",
        THEN conjunct1]
    by simp
  have c3: "load_resources (Inr ex_tfidf) (Inr ex_catalog) =
      ([Load_success], (Some ex_tfidf, Some ex_catalog, Some ex_matrix))"
    using r ex_transform_column
      load_failure_reported [where joblib_load = "Inr ex_tfidf"
        and read_pickle = "Inr ex_catalog" and t' = ex_tfidf and d' = ex_catalog
        and reviews' = "StrCol [Some (str ''clear''), Some (str ''hard'')]" and m' = ex_matrix,
        THEN conjunct2, THEN conjunct1]
    by simp
  have c: "main stable_argsort latin_lcut (Inr []) (Inr ex_tfidf) (Inr ex_new_courses)
     \<lparr>keywords_input = str ''clear'', submit_clicked = True, restart_clicked = False\<rparr> None =
     ([Load_error KeyError] @ [Init_failed], Inr (init_session_state None))"
    using c1 load_failure_reported [where joblib_load = "Inr ex_tfidf"
        and read_pickle = "Inr ex_new_courses" and events = "[Load_error KeyError]"
        and argsort = stable_argsort and lcut = latin_lcut and stopwords_file = "Inr []"
        and w = "\<lparr>keywords_input = str ''clear'', submit_clicked = True,
          restart_clicked = False\<rparr>" and ?s0.0 = None,
        THEN conjunct2, THEN conjunct2, THEN conjunct1]
    by simp
  have d: "recommend_courses stable_argsort latin_lcut (Inl OSError) (str ''clear'') ex_catalog
      ex_tfidf ex_matrix 5 (7 / 10) (3 / 10) = Inl OSError"
    using load_failure_reported [where e' = OSError and argsort = stable_argsort
        and lcut = latin_lcut and catalog = ex_catalog and tfidf = ex_tfidf and M = ex_matrix
        and top_n = 5 and ws = "7 / 10" and wr = "3 / 10",
        THEN conjunct2, THEN conjunct2, THEN conjunct2, THEN conjunct1]
    by simp
  have e: "recommend_courses stable_argsort latin_lcut (Inr []) (str ''clear'') ex_catalog
      ex_tfidf [[1, 0]] 5 (7 / 10) (3 / 10) = Inl ValueError"
    using q n load_failure_reported [where argsort = stable_argsort
        and lcut = latin_lcut and stopwords_file = "Inr []" and catalog = ex_catalog
        and tfidf = ex_tfidf and M = "[[1, 0]]" and sims = "[1]"
        and top_n = 5 and ws = "7 / 10" and wr = "3 / 10",
        THEN conjunct2, THEN conjunct2, THEN conjunct2, THEN conjunct2]
    by simp
  show ?thesis
    using a b k c1 g t c2 c3 c d q n e by (intro conjI)
qed

subsection \<open>Rows with equal scores\<close>

text \<open>
  The order of rows with equal composite scores is the order the sort gives them.
  A stable sort keeps them in catalog order: the positions with a given score are
  listed by \<open>stable_argsort\<close> as they stand in the catalog. The properties above
  hold for every descending sort and do not depend on this.
\<close>

lemma stable_argsort_keeps_ties:
  "filter (\<lambda>i. ks ! i = k) (stable_argsort ks) = filter (\<lambda>i. ks ! i = k) [0..<length ks]"
proof -
  have "filter (\<lambda>i. ks ! i = k) (sort_key (\<lambda>i. ks ! i) (rev [0..<length ks])) =
      filter (\<lambda>i. ks ! i = k) (rev [0..<length ks])"
    by (rule sort_key_stable)
  then show ?thesis
    by (simp add: stable_argsort_def rev_filter [symmetric])
qed


end
